theory Spec2Isabelle
  imports Complex_Main "HOL-Library.List_Lexorder"
begin

section \<open>Marginal maximum likelihood estimators of GIRTH\<close>

text \<open>
  The development embeds the estimation routines of \<^verbatim>\<open>mml_full_methods.py\<close>,
  \<^verbatim>\<open>mml_methods.py\<close> and \<^verbatim>\<open>mml_separate_methods.py\<close>.
  NumPy's double precision numbers are idealised as real numbers; arrays are lists, in
  row-major order. The routines of SciPy (the optimisers, the root finder, the weights of
  the Gauss-Legendre rule) are arguments of the embedded functions, so every theorem
  holds for whatever these routines do.
\<close>

subsection \<open>Dichotomous data and its deduplication\<close>

text \<open>
  A dichotomous dataset is an items x participants array of True/False values. The
  number of participants is kept beside the rows, as \<^verbatim>\<open>dataset.shape[1]\<close> is.
\<close>

record dataset =
  shape1 :: nat
  rows :: "bool list list"

definition n_items_of :: "dataset \<Rightarrow> nat" where
  "n_items_of ds = length (rows ds)"

definition well_shaped :: "dataset \<Rightarrow> bool" where
  "well_shaped ds = list_all (\<lambda>r. length r = shape1 ds) (rows ds)"

definition column :: "dataset \<Rightarrow> nat \<Rightarrow> bool list" where
  "column ds j = map (\<lambda>r. r ! j) (rows ds)"

definition columns :: "dataset \<Rightarrow> bool list list" where
  "columns ds = map (column ds) [0..<shape1 ds]"

text \<open>
  \<^verbatim>\<open>np.unique(dataset, axis=1, return_counts=True)\<close>: the distinct columns in
  lexicographic order (first row most significant, False before True), and how often
  each occurs among the columns of the dataset.
\<close>

definition np_unique_axis1 :: "dataset \<Rightarrow> bool list list \<times> nat list" where
  "np_unique_axis1 ds =
     (let cols = columns ds;
          unique_cols = remdups_adj (sort cols)
      in (unique_cols, map (count_list cols) unique_cols))"

text \<open>The unique patterns as the array \<^verbatim>\<open>unique_sets\<close>: items x patterns.\<close>

definition unique_sets :: "dataset \<Rightarrow> bool list list" where
  "unique_sets ds =
     map (\<lambda>i. map (\<lambda>c. c ! i) (fst (np_unique_axis1 ds))) [0..<n_items_of ds]"

definition counts :: "dataset \<Rightarrow> nat list" where
  "counts ds = snd (np_unique_axis1 ds)"

subsection \<open>The sign of the logistic kernel\<close>

text \<open>
  \<^verbatim>\<open>the_sign = (-1)**unique_sets\<close> of \<^verbatim>\<open>onepl_separate\<close> and
  \<^verbatim>\<open>twopl_separate\<close>: True counts as the exponent 1 and False as 0.
\<close>

definition exponent_of :: "bool \<Rightarrow> nat" where
  "exponent_of b = (if b then 1 else 0)"

definition sign_power :: "bool list list \<Rightarrow> int list list" where
  "sign_power m = map (map (\<lambda>b. (- 1) ^ exponent_of b)) m"

definition onepl_separate_the_sign :: "dataset \<Rightarrow> int list list" where
  "onepl_separate_the_sign ds = sign_power (unique_sets ds)"

definition twopl_separate_the_sign :: "dataset \<Rightarrow> int list list" where
  "twopl_separate_the_sign ds = sign_power (unique_sets ds)"

text \<open>
  \<^verbatim>\<open>quadrature_function\<close> of \<^verbatim>\<open>twopl_separate\<close>, called with the signs of one item
  (one per pattern), scalar parameters and the accumulator (patterns x nodes):
  \<^verbatim>\<open>kernel1 = the_sign[:, None] * (theta[None, :] - difficulty); kernel1 *= discrimination\<close>,
  \<^verbatim>\<open>kernel2\<close> the same with the old parameters, and
  \<^verbatim>\<open>return partial_int * (1 + np.exp(kernel2)) / (1 + np.exp(kernel1))\<close>.
\<close>

definition twopl_separate_quadrature_function ::
  "real list \<Rightarrow> real \<Rightarrow> real \<Rightarrow> real \<Rightarrow> real \<Rightarrow> real list list \<Rightarrow> int list \<Rightarrow> real list list" where
  "twopl_separate_quadrature_function th discrimination0 old_discrimination difficulty0
     old_difficulty partial_int0 the_sign_row =
     map2 (\<lambda>row sg.
             map2 (\<lambda>acc t. acc * (1 + exp (real_of_int sg * (t - old_difficulty) * old_discrimination))
                               / (1 + exp (real_of_int sg * (t - difficulty0) * discrimination0)))
                  row th)
          partial_int0 the_sign_row"

text \<open>
  The probability that a participant of ability \<open>t\<close> endorses an item of the given
  discrimination and difficulty, in the two-parameter logistic model.
\<close>

definition endorsement_probability :: "real \<Rightarrow> real \<Rightarrow> real \<Rightarrow> real" where
  "endorsement_probability disc diff t = 1 / (1 + exp (- (disc * (t - diff))))"

subsection \<open>Errors, options and the routines taken from outside\<close>

datatype error = ValueError | NameError | IndexError

text \<open>
  The validated options: \<^verbatim>\<open>max_iteration\<close>, \<^verbatim>\<open>distribution\<close> (a callable sampled
  at the quadrature nodes), \<^verbatim>\<open>quadrature_bounds\<close> and \<^verbatim>\<open>quadrature_n\<close>.
\<close>

record options =
  max_iteration :: int
  distribution :: "real list \<Rightarrow> real list"
  quadrature_bounds :: "real \<times> real"
  quadrature_n :: nat

text \<open>
  A SciPy optimiser evaluates its objective at one trial point after the other, each
  chosen from the values seen so far, at most \<open>maxfun\<close> times, and then returns a point.
  The objective closures of the estimators write the trial point into the parameter
  arrays, so the arrays keep the last trial made, whatever point is returned.
\<close>

record 'x optimizer =
  next_trial :: "('x \<times> real) list \<Rightarrow> 'x option"
  answer :: "('x \<times> real) list \<Rightarrow> 'x"
  maxfun :: nat

fun run_trials ::
  "nat \<Rightarrow> (('x \<times> real) list \<Rightarrow> 'x option) \<Rightarrow> ('x \<Rightarrow> 's \<Rightarrow> real \<times> 's) \<Rightarrow>
   ('x \<times> real) list \<Rightarrow> 's \<Rightarrow> ('x \<times> real) list \<times> 's" where
  "run_trials 0 nxt f hist s = (hist, s)"
| "run_trials (Suc n) nxt f hist s =
     (case nxt hist of
        None \<Rightarrow> (hist, s)
      | Some x \<Rightarrow> (case f x s of (v, s') \<Rightarrow> run_trials n nxt f (hist @ [(x, v)]) s'))"

definition minimize :: "'x optimizer \<Rightarrow> ('x \<Rightarrow> 's \<Rightarrow> real \<times> 's) \<Rightarrow> 's \<Rightarrow> 'x \<times> 's" where
  "minimize opt f s =
     (case run_trials (maxfun opt) (next_trial opt) f [] s of
        (hist, s') \<Rightarrow> (answer opt hist, s'))"

text \<open>
  An objective that can raise: the exception leaves the optimiser at once.
\<close>

fun run_trials_raising ::
  "nat \<Rightarrow> (('x \<times> real) list \<Rightarrow> 'x option) \<Rightarrow> ('x \<Rightarrow> 's \<Rightarrow> error + real \<times> 's) \<Rightarrow>
   ('x \<times> real) list \<Rightarrow> 's \<Rightarrow> error + ('x \<times> real) list \<times> 's" where
  "run_trials_raising 0 nxt f hist s = Inr (hist, s)"
| "run_trials_raising (Suc n) nxt f hist s =
     (case nxt hist of
        None \<Rightarrow> Inr (hist, s)
      | Some x \<Rightarrow>
          (case f x s of
             Inl e \<Rightarrow> Inl e
           | Inr (v, s') \<Rightarrow> run_trials_raising n nxt f (hist @ [(x, v)]) s'))"

definition minimize_raising ::
  "'x optimizer \<Rightarrow> ('x \<Rightarrow> 's \<Rightarrow> error + real \<times> 's) \<Rightarrow> 's \<Rightarrow> error + 'x \<times> 's" where
  "minimize_raising opt f s =
     (case run_trials_raising (maxfun opt) (next_trial opt) f [] s of
        Inl e \<Rightarrow> Inl e
      | Inr (hist, s') \<Rightarrow> Inr (answer opt hist, s'))"

text \<open>
  The routines that are not among the three source files. \<open>sign_of\<close> is the value
  \<^verbatim>\<open>convert_responses_to_kernel_sign\<close> gives one entry; \<open>leggauss_weights n\<close> and
  \<open>leggauss_nodes n\<close> are the weights and the nodes \<^verbatim>\<open>integrate.fixed_quad\<close>
  uses at order \<open>n\<close>; \<open>irt_evaluation difficulty discrimination theta\<close> is the
  response function of one item at one ability. \<open>condition_polytomous_response dataset
  trim_ends reference\<close> gives the recoded responses (items x participants) and the number
  of categories of each item; \<open>credit_partial_integral theta betas discrimination
  responses\<close> is the contribution of one item of the partial credit model (participants x
  nodes), its thresholds given as a row that may end in NaN (\<open>None\<close>);
  \<open>solve_for_constants\<close> and \<open>solve_integral_equations discrimination constants
  distribution theta\<close> are the two helpers of the graded response model.
\<close>

record 'o external =
  validate_estimation_options :: "'o \<Rightarrow> options"
  sign_of :: "bool \<Rightarrow> real"
  get_quadrature_points :: "nat \<Rightarrow> real \<Rightarrow> real \<Rightarrow> real list"
  leggauss_weights :: "nat \<Rightarrow> real list"
  fminbound :: "real \<Rightarrow> real \<Rightarrow> real optimizer"
  fmin_slsqp :: "real list \<Rightarrow> (real \<times> real) list \<Rightarrow> real list optimizer"
  leggauss_nodes :: "nat \<Rightarrow> real list"
  brentq :: "(real \<Rightarrow> real) \<Rightarrow> real \<Rightarrow> real \<Rightarrow> error + real"
  irt_evaluation :: "real \<Rightarrow> real \<Rightarrow> real \<Rightarrow> real"
  condition_polytomous_response :: "int list list \<Rightarrow> bool \<Rightarrow> real \<Rightarrow> nat list list \<times> nat list"
  credit_partial_integral :: "real list \<Rightarrow> real option list \<Rightarrow> real \<Rightarrow> nat list \<Rightarrow> real list list"
  solve_for_constants :: "nat list \<Rightarrow> real list"
  solve_integral_equations :: "real \<Rightarrow> real list \<Rightarrow> real list \<Rightarrow> real list \<Rightarrow> real list"

subsection \<open>Arrays\<close>

definition mult_arr :: "real list list \<Rightarrow> real list list \<Rightarrow> real list list" where
  "mult_arr a b = map2 (map2 (*)) a b"

definition div_arr :: "real list list \<Rightarrow> real list list \<Rightarrow> real list list" where
  "div_arr a b = map2 (map2 (/)) a b"

text \<open>\<^verbatim>\<open>a *= d\<close> for a two-dimensional \<open>a\<close> and a vector \<open>d\<close> along its last axis.\<close>

definition scale_rows :: "real list list \<Rightarrow> real list \<Rightarrow> real list list" where
  "scale_rows a d = map (\<lambda>row. map2 (*) row d) a"

definition n_columns :: "'a list list \<Rightarrow> nat" where
  "n_columns m = (case m of [] \<Rightarrow> 0 | r # _ \<Rightarrow> length r)"

text \<open>
  \<^verbatim>\<open>integrate.fixed_quad(lambda x: arr, a, b, n=n)[0]\<close>: the closure ignores its
  argument, so the rule sums the rows of \<open>arr\<close> against its own weights \<open>w\<close>.
\<close>

definition fixed_quad_row :: "real list \<Rightarrow> real list \<Rightarrow> real \<Rightarrow> real \<Rightarrow> real" where
  "fixed_quad_row w row a b = (b - a) / 2 * sum_list (map2 (*) w row)"

definition fixed_quad :: "real list \<Rightarrow> real list list \<Rightarrow> real \<Rightarrow> real \<Rightarrow> real list" where
  "fixed_quad w arr a b = map (\<lambda>row. fixed_quad_row w row a b) arr"

text \<open>
  \<^verbatim>\<open>integrate.fixed_quad(f, a, b, args, n=n)[0]\<close> for a function that is
  evaluated at the nodes of the rule.
\<close>

definition fixed_quad_fun ::
  "real list \<Rightarrow> real list \<Rightarrow> (real \<Rightarrow> real) \<Rightarrow> real \<Rightarrow> real \<Rightarrow> real" where
  "fixed_quad_fun w x f a b =
     (b - a) / 2 * sum_list (map2 (\<lambda>wk xk. wk * f ((b - a) * (xk + 1) / 2 + a)) w x)"

text \<open>\<^verbatim>\<open>-np.log(otpt).dot(counts)\<close>\<close>

definition neg_log_dot :: "real list \<Rightarrow> nat list \<Rightarrow> real" where
  "neg_log_dot otpt cnts = - sum_list (map2 (\<lambda>x c. ln x * real c) otpt cnts)"

text \<open>
  \<^verbatim>\<open>np.abs(a - b).max() < 1e-3\<close>; the maximum of an empty array raises ValueError.
\<close>

definition max_abs_diff :: "real list \<Rightarrow> real list \<Rightarrow> error + real" where
  "max_abs_diff a b =
     (case map2 (\<lambda>x y. \<bar>x - y\<bar>) a b of
        [] \<Rightarrow> Inl ValueError
      | d # ds \<Rightarrow> Inr (fold max ds d))"

definition small_change :: "real list \<Rightarrow> real list \<Rightarrow> error + bool" where
  "small_change a b =
     (case max_abs_diff a b of Inl e \<Rightarrow> Inl e | Inr m \<Rightarrow> Inr (m < 1 / 1000))"

subsection \<open>The outer loop\<close>

text \<open>
  \<^verbatim>\<open>for iteration in range(cap): <pass>; if <change> < 1e-3: break\<close>. The state
  after the loop is all that is kept.
\<close>

fun iterate_passes ::
  "nat \<Rightarrow> ('s \<Rightarrow> 's) \<Rightarrow> ('s \<Rightarrow> 's \<Rightarrow> error + bool) \<Rightarrow> 's \<Rightarrow> error + 's" where
  "iterate_passes 0 pass converged s = Inr s"
| "iterate_passes (Suc n) pass converged s =
     (case converged s (pass s) of
        Inl e \<Rightarrow> Inl e
      | Inr stop \<Rightarrow> if stop then Inr (pass s) else iterate_passes n pass converged (pass s))"

subsection \<open>The partial integral of the dichotomous models\<close>

text \<open>
  Modelled from the spec: \<^verbatim>\<open>girth.utils._compute_partial_integral\<close> is not among
  the source files. For each response pattern and each quadrature node it is the product,
  over the items it is given, of the item's likelihood contribution (spec 4.3), the
  logistic kernel with the signed exponent (spec 4.2); the kernel is the one
  \<^verbatim>\<open>quadrature_function\<close> of \<^verbatim>\<open>twopl_separate\<close> writes out,
  \<^verbatim>\<open>1 / (1 + exp(the_sign * discrimination * (theta - difficulty)))\<close>.
  The result has one row per pattern and one column per node.
\<close>

definition kernel :: "real \<Rightarrow> real \<Rightarrow> real \<Rightarrow> real \<Rightarrow> real" where
  "kernel sg disc diff t = 1 / (1 + exp (sg * disc * (t - diff)))"

definition compute_partial_integral ::
  "real list \<Rightarrow> real list \<Rightarrow> real list \<Rightarrow> real list list \<Rightarrow> real list list" where
  "compute_partial_integral th diff disc sg =
     map (\<lambda>p. map (\<lambda>t. prod_list (map (\<lambda>i. kernel (sg ! i ! p) (disc ! i) (diff ! i) t)
                                     [0..<length sg])) th)
         [0..<n_columns sg]"

text \<open>What an estimator of a dichotomous model computes once, before its loop.\<close>

record prepared =
  n_items :: nat
  theta :: "real list"
  prior :: "real list"
  the_sign :: "real list list"
  pattern_counts :: "nat list"
  quad_start :: real
  quad_stop :: real
  quad_n :: nat

text \<open>The arrays the loops update in place.\<close>

record estimates =
  discrimination :: "real list"
  difficulty :: "real list"
  partial_int :: "real list list"

definition prepare :: "'o external \<Rightarrow> dataset \<Rightarrow> options \<Rightarrow> prepared" where
  "prepare ext ds opts =
     (let th = get_quadrature_points ext (quadrature_n opts)
                 (fst (quadrature_bounds opts)) (snd (quadrature_bounds opts))
      in \<lparr>n_items = n_items_of ds,
          theta = th,
          prior = distribution opts th,
          the_sign = map (map (sign_of ext)) (unique_sets ds),
          pattern_counts = counts ds,
          quad_start = fst (quadrature_bounds opts),
          quad_stop = snd (quadrature_bounds opts),
          quad_n = quadrature_n opts\<rparr>)"

definition initial_estimates :: "nat \<Rightarrow> estimates" where
  "initial_estimates n =
     \<lparr>discrimination = replicate n 1, difficulty = replicate n 0, partial_int = []\<rparr>"

text \<open>
  \<^verbatim>\<open>_compute_partial_integral(theta, difficulty[item_ndx, None],
  discrimination[item_ndx, None], the_sign[item_ndx, None])\<close>: the contribution of one
  item under the parameters the arrays hold.
\<close>

definition item_integral :: "prepared \<Rightarrow> estimates \<Rightarrow> nat \<Rightarrow> real list list" where
  "item_integral su s item_ndx =
     compute_partial_integral (theta su) [difficulty s ! item_ndx]
       [discrimination s ! item_ndx] [the_sign su ! item_ndx]"

text \<open>
  The full product, computed at the start of every pass:
  \<^verbatim>\<open>partial_int = _compute_partial_integral(theta, difficulty, discrimination,
  the_sign); partial_int *= distribution\<close>.
\<close>

definition full_rebuild :: "prepared \<Rightarrow> estimates \<Rightarrow> estimates" where
  "full_rebuild su s =
     s\<lparr>partial_int :=
         scale_rows (compute_partial_integral (theta su) (difficulty s) (discrimination s)
                       (the_sign su)) (prior su)\<rparr>"

text \<open>\<^verbatim>\<open>local_int = ...; partial_int /= local_int\<close>\<close>

definition remove_item :: "prepared \<Rightarrow> nat \<Rightarrow> estimates \<Rightarrow> estimates" where
  "remove_item su item_ndx s =
     s\<lparr>partial_int := div_arr (partial_int s) (item_integral su s item_ndx)\<rparr>"

text \<open>\<^verbatim>\<open>estimate_int = ...; partial_int *= estimate_int\<close>\<close>

definition reinsert_item :: "prepared \<Rightarrow> nat \<Rightarrow> estimates \<Rightarrow> estimates" where
  "reinsert_item su item_ndx s =
     s\<lparr>partial_int := mult_arr (partial_int s) (item_integral su s item_ndx)\<rparr>"

text \<open>
  The value every objective of the dichotomous estimators returns: the contribution of the
  item under the parameters now in the arrays, times the background, integrated over the
  nodes, as \<^verbatim>\<open>-np.log(otpt).dot(counts)\<close>.
\<close>

definition item_cost :: "'o external \<Rightarrow> prepared \<Rightarrow> nat \<Rightarrow> estimates \<Rightarrow> real" where
  "item_cost ext su item_ndx s =
     neg_log_dot
       (fixed_quad (leggauss_weights ext (quad_n su))
          (mult_arr (item_integral su s item_ndx) (partial_int s))
          (quad_start su) (quad_stop su))
       (pattern_counts su)"

subsection \<open>twopl_full\<close>





definition discrimination_settled :: "estimates \<Rightarrow> estimates \<Rightarrow> error + bool" where
  "discrimination_settled previous s = small_change (discrimination s) (discrimination previous)"


subsection \<open>What the central invariant says, for the dichotomous models\<close>


text \<open>The contribution of item \<open>i\<close> at pattern \<open>p\<close> and node \<open>q\<close>, under the parameters in \<open>s\<close>.\<close>

definition item_factor :: "prepared \<Rightarrow> estimates \<Rightarrow> nat \<Rightarrow> nat \<Rightarrow> nat \<Rightarrow> real" where
  "item_factor su s i p q =
     kernel (the_sign su ! i ! p) (discrimination s ! i) (difficulty s ! i) (theta su ! q)"


text \<open>
  Between \<open>s\<close> and \<open>s'\<close> nothing but the parameters of item \<open>k\<close> has changed.
\<close>

definition same_except :: "nat \<Rightarrow> estimates \<Rightarrow> estimates \<Rightarrow> bool" where
  "same_except k s s' =
     (partial_int s' = partial_int s \<and>
      length (discrimination s') = length (discrimination s) \<and>
      length (difficulty s') = length (difficulty s) \<and>
      (\<forall>i. i \<noteq> k \<longrightarrow> discrimination s' ! i = discrimination s ! i \<and>
                       difficulty s' ! i = difficulty s ! i))"


subsection \<open>onepl_full and rasch_full\<close>

definition onepl_full_min_local_func ::
  "'o external \<Rightarrow> prepared \<Rightarrow> nat \<Rightarrow> real \<Rightarrow> estimates \<Rightarrow> real \<times> estimates" where
  "onepl_full_min_local_func ext su item_ndx beta_estimate s =
     (let s' = s\<lparr>difficulty := (difficulty s)[item_ndx := beta_estimate]\<rparr>
      in (item_cost ext su item_ndx s', s'))"

definition onepl_full_solve :: "'o external \<Rightarrow> prepared \<Rightarrow> nat \<Rightarrow> estimates \<Rightarrow> estimates" where
  "onepl_full_solve ext su item_ndx s =
     snd (minimize (fminbound ext (- 4) 4) (onepl_full_min_local_func ext su item_ndx) s)"

definition onepl_full_item :: "'o external \<Rightarrow> prepared \<Rightarrow> nat \<Rightarrow> estimates \<Rightarrow> estimates" where
  "onepl_full_item ext su item_ndx s =
     reinsert_item su item_ndx (onepl_full_solve ext su item_ndx (remove_item su item_ndx s))"

definition onepl_full_pass :: "'o external \<Rightarrow> prepared \<Rightarrow> estimates \<Rightarrow> estimates" where
  "onepl_full_pass ext su s =
     fold (onepl_full_item ext su) [0..<n_items su] (full_rebuild su s)"

definition difficulty_settled :: "estimates \<Rightarrow> estimates \<Rightarrow> error + bool" where
  "difficulty_settled previous s = small_change (difficulty previous) (difficulty s)"

text \<open>
  \<^verbatim>\<open>alpha_min_func\<close>: the shared discrimination is written into the array, the
  difficulties are iterated from the values they have, and the cost is computed from the
  accumulator of the last pass. With no pass at all the name \<^verbatim>\<open>partial_int\<close> is
  unbound when the cost reads it.
\<close>

definition alpha_min_func ::
  "'o external \<Rightarrow> prepared \<Rightarrow> int \<Rightarrow> real \<Rightarrow> estimates \<Rightarrow> error + real \<times> estimates" where
  "alpha_min_func ext su max_iter alpha_estimate s =
     (let s1 = s\<lparr>discrimination := replicate (length (discrimination s)) alpha_estimate\<rparr>
      in case iterate_passes (nat max_iter) (onepl_full_pass ext su) difficulty_settled s1 of
           Inl e \<Rightarrow> Inl e
         | Inr s2 \<Rightarrow>
             if nat max_iter = 0 then Inl NameError
             else Inr (neg_log_dot
                         (fixed_quad (leggauss_weights ext (quad_n su)) (partial_int s2)
                            (quad_start su) (quad_stop su))
                         (pattern_counts su), s2))"

definition onepl_full ::
  "'o external \<Rightarrow> dataset \<Rightarrow> real option \<Rightarrow> 'o \<Rightarrow> error + real \<times> real list" where
  "onepl_full ext ds alpha opts =
     (let options = validate_estimation_options ext opts;
          su = prepare ext ds options;
          s0 = initial_estimates (n_items su)
      in case alpha of
           None \<Rightarrow>
             (case minimize_raising (fminbound ext (1 / 10) 4)
                     (alpha_min_func ext su (max_iteration options)) s0 of
                Inl e \<Rightarrow> Inl e
              | Inr (a, s) \<Rightarrow> Inr (a, difficulty s))
         | Some a \<Rightarrow>
             (case alpha_min_func ext su (max_iteration options) a s0 of
                Inl e \<Rightarrow> Inl e
              | Inr (cost, s) \<Rightarrow> Inr (a, difficulty s)))"

text \<open>\<^verbatim>\<open>return onepl_full(dataset, alpha=discrimination, options=options)[1]\<close>\<close>

definition rasch_full :: "'o external \<Rightarrow> dataset \<Rightarrow> real \<Rightarrow> 'o \<Rightarrow> error + real list" where
  "rasch_full ext ds discrimination_value opts =
     (case onepl_full ext ds (Some discrimination_value) opts of
        Inl e \<Rightarrow> Inl e
      | Inr result \<Rightarrow> Inr (snd result))"

subsection \<open>The separable difficulty step of mml_methods\<close>

text \<open>
  Modelled from the spec: \<^verbatim>\<open>get_true_false_counts\<close> is not among the source files;
  it is the tally of False and of True entries of each item (spec 1, "true/false
  tallies"), as \<^verbatim>\<open>rasch_separate\<close> computes it with \<^verbatim>\<open>np.count_nonzero\<close>.
\<close>

definition get_true_false_counts :: "dataset \<Rightarrow> nat list \<times> nat list" where
  "get_true_false_counts ds =
     (map (\<lambda>r. length (filter Not r)) (rows ds), map (\<lambda>r. length (filter id r)) (rows ds))"

text \<open>\<^verbatim>\<open>scalar = n_yes / (n_yes + n_no)\<close>\<close>

definition scalar :: "dataset \<Rightarrow> real list" where
  "scalar ds =
     (let n_no = fst (get_true_false_counts ds); n_yes = snd (get_true_false_counts ds)
      in map2 (\<lambda>y n. real y / (real y + real n)) n_yes n_no)"

text \<open>
  The integral of \<^verbatim>\<open>min_zero_local\<close> in \<^verbatim>\<open>_mml_abstract\<close>: the logistic curve of
  the item at the nodes, times the density, summed by the rule of order 61 on [-5, 5].
\<close>

definition mml_integral :: "'o external \<Rightarrow> real \<Rightarrow> real list \<Rightarrow> real list \<Rightarrow> real \<Rightarrow> real" where
  "mml_integral ext discrimination_i th dens estimate =
     fixed_quad_row (leggauss_weights ext 61)
       (map2 (*) (map (\<lambda>t. 1 / (1 + exp (discrimination_i * (estimate - t)))) th) dens)
       (- 5) 5"

definition mml_min_zero_local ::
  "'o external \<Rightarrow> real \<Rightarrow> real \<Rightarrow> real list \<Rightarrow> real list \<Rightarrow> real \<Rightarrow> real" where
  "mml_min_zero_local ext discrimination_i scalar_i th dens estimate =
     (mml_integral ext discrimination_i th dens estimate - scalar_i)\<^sup>2"

text \<open>An objective that touches no array, handed to an optimiser.\<close>

definition minimize_pure :: "'x optimizer \<Rightarrow> ('x \<Rightarrow> real) \<Rightarrow> 'x" where
  "minimize_pure opt f = fst (minimize opt (\<lambda>x u. (f x, u)) ())"

definition mml_abstract ::
  "'o external \<Rightarrow> real list \<Rightarrow> real list \<Rightarrow> real list \<Rightarrow> real list \<Rightarrow> real list \<Rightarrow> real list" where
  "mml_abstract ext difficulty0 scalar0 discrimination0 th dens =
     fold (\<lambda>item_ndx d.
             d[item_ndx := minimize_pure (fminbound ext (- 6) 6)
                             (mml_min_zero_local ext (discrimination0 ! item_ndx)
                                (scalar0 ! item_ndx) th dens)])
          [0..<length difficulty0] difficulty0"

subsection \<open>onepl_mml, rasch_mml and twopl_mml\<close>

text \<open>\<^verbatim>\<open>stats.norm(0, 1).pdf\<close>\<close>

definition standard_normal_pdf :: "real \<Rightarrow> real" where
  "standard_normal_pdf t = exp (- (t\<^sup>2) / 2) / sqrt (2 * pi)"

definition mml_prepare :: "'o external \<Rightarrow> dataset \<Rightarrow> prepared" where
  "mml_prepare ext ds =
     (let th = get_quadrature_points ext 61 (- 5) 5
      in \<lparr>n_items = n_items_of ds,
          theta = th,
          prior = map standard_normal_pdf th,
          the_sign = map (map (sign_of ext)) (unique_sets ds),
          pattern_counts = counts ds,
          quad_start = - 5,
          quad_stop = 5,
          quad_n = 61\<rparr>)"

definition onepl_mml_min_func ::
  "'o external \<Rightarrow> dataset \<Rightarrow> prepared \<Rightarrow> real \<Rightarrow> estimates \<Rightarrow> real \<times> estimates" where
  "onepl_mml_min_func ext ds su estimate s =
     (let s1 = s\<lparr>discrimination := replicate (length (discrimination s)) estimate\<rparr>;
          s2 = s1\<lparr>difficulty := mml_abstract ext (difficulty s1) (scalar ds)
                                  (discrimination s1) (theta su) (prior su)\<rparr>;
          s3 = full_rebuild su s2
      in (neg_log_dot (fixed_quad (leggauss_weights ext 61) (partial_int s3) (- 5) 5)
            (pattern_counts su), s2))"

definition onepl_mml :: "'o external \<Rightarrow> dataset \<Rightarrow> real option \<Rightarrow> real \<times> real list" where
  "onepl_mml ext ds alpha =
     (let su = mml_prepare ext ds;
          s0 = initial_estimates (n_items su)
      in case alpha of
           None \<Rightarrow>
             (case minimize (fminbound ext (1 / 4) 10) (onepl_mml_min_func ext ds su) s0 of
                (a, s) \<Rightarrow> (a, difficulty s))
         | Some a \<Rightarrow> (a, difficulty (snd (onepl_mml_min_func ext ds su a s0))))"

text \<open>\<^verbatim>\<open>return onepl_mml(dataset, alpha=discrimination)[1]\<close>\<close>

definition rasch_mml :: "'o external \<Rightarrow> dataset \<Rightarrow> real \<Rightarrow> real list" where
  "rasch_mml ext ds discrimination_value = snd (onepl_mml ext ds (Some discrimination_value))"

text \<open>
  In \<^verbatim>\<open>twopl_mml\<close> the difficulty step gets the views \<^verbatim>\<open>difficulty[ndx, None]\<close>
  and so on, and writes the difficulty of the one item through the view.
\<close>

definition twopl_mml_min_func_local ::
  "'o external \<Rightarrow> dataset \<Rightarrow> prepared \<Rightarrow> nat \<Rightarrow> real \<Rightarrow> estimates \<Rightarrow> real \<times> estimates" where
  "twopl_mml_min_func_local ext ds su ndx estimate s =
     (let s1 = s\<lparr>discrimination := (discrimination s)[ndx := estimate]\<rparr>;
          d = mml_abstract ext [difficulty s1 ! ndx] [scalar ds ! ndx]
                [discrimination s1 ! ndx] (theta su) (prior su);
          s2 = s1\<lparr>difficulty := (difficulty s1)[ndx := d ! 0]\<rparr>
      in (item_cost ext su ndx s2, s2))"

definition twopl_mml_solve ::
  "'o external \<Rightarrow> dataset \<Rightarrow> prepared \<Rightarrow> nat \<Rightarrow> estimates \<Rightarrow> estimates" where
  "twopl_mml_solve ext ds su ndx s =
     snd (minimize (fminbound ext (1 / 4) 6) (twopl_mml_min_func_local ext ds su ndx) s)"

definition twopl_mml_item ::
  "'o external \<Rightarrow> dataset \<Rightarrow> prepared \<Rightarrow> nat \<Rightarrow> estimates \<Rightarrow> estimates" where
  "twopl_mml_item ext ds su ndx s =
     reinsert_item su ndx (twopl_mml_solve ext ds su ndx (remove_item su ndx s))"

definition twopl_mml_pass :: "'o external \<Rightarrow> dataset \<Rightarrow> prepared \<Rightarrow> estimates \<Rightarrow> estimates" where
  "twopl_mml_pass ext ds su s =
     fold (twopl_mml_item ext ds su) [0..<n_items su] (full_rebuild su s)"

definition twopl_mml :: "'o external \<Rightarrow> dataset \<Rightarrow> int \<Rightarrow> error + real list \<times> real list" where
  "twopl_mml ext ds max_iter =
     (let su = mml_prepare ext ds
      in case iterate_passes (nat max_iter) (twopl_mml_pass ext ds su)
                discrimination_settled (initial_estimates (n_items su)) of
           Inl e \<Rightarrow> Inl e
         | Inr s \<Rightarrow> Inr (discrimination s, difficulty s))"

subsection \<open>rasch_separate\<close>

text \<open>
  The discrimination argument is a scalar or an array;
  \<^verbatim>\<open>if np.ndim(discrimination) < 1: discrimination = np.full(n_items, discrimination)\<close>.
\<close>

datatype scalar_or_array = Scalar real | Array "real list"

definition as_array :: "nat \<Rightarrow> scalar_or_array \<Rightarrow> real list" where
  "as_array n d = (case d of Scalar x \<Rightarrow> replicate n x | Array xs \<Rightarrow> xs)"

definition quadrature_function :: "'o external \<Rightarrow> real \<Rightarrow> real \<Rightarrow> real \<Rightarrow> real" where
  "quadrature_function ext th difficulty_i discrimination_i =
     irt_evaluation ext difficulty_i discrimination_i th
       * (1 / sqrt (2 * pi) * exp (- (th\<^sup>2) / 2))"

definition separate_integral :: "'o external \<Rightarrow> real \<Rightarrow> real \<Rightarrow> real" where
  "separate_integral ext discrimination_i estimate =
     fixed_quad_fun (leggauss_weights ext 101) (leggauss_nodes ext 101)
       (\<lambda>th. quadrature_function ext th estimate discrimination_i) (- 10) 10"

definition separate_min_zero_local :: "'o external \<Rightarrow> real \<Rightarrow> real \<Rightarrow> real \<Rightarrow> real" where
  "separate_min_zero_local ext scalar_i discrimination_i estimate =
     scalar_i - separate_integral ext discrimination_i estimate"

fun rasch_separate_loop ::
  "'o external \<Rightarrow> real list \<Rightarrow> real list \<Rightarrow> nat list \<Rightarrow> real list \<Rightarrow> error + real list" where
  "rasch_separate_loop ext sc disc [] the_parameters = Inr the_parameters"
| "rasch_separate_loop ext sc disc (ndx # rest) the_parameters =
     (if length disc \<le> ndx then Inl IndexError
      else case brentq ext (separate_min_zero_local ext (sc ! ndx) (disc ! ndx)) (- 6) 6 of
             Inl e \<Rightarrow> Inl e
           | Inr found \<Rightarrow> rasch_separate_loop ext sc disc rest (the_parameters[ndx := found]))"

definition rasch_separate :: "'o external \<Rightarrow> dataset \<Rightarrow> scalar_or_array \<Rightarrow> error + real list" where
  "rasch_separate ext ds discrimination0 =
     rasch_separate_loop ext (scalar ds) (as_array (n_items_of ds) discrimination0)
       [0..<n_items_of ds] (replicate (n_items_of ds) 0)"

subsection \<open>pcm_mml\<close>


record pcm_estimates =
  pcm_discrimination :: "real list"
  betas :: "real option list list"
  pcm_partial_int :: "real list list"
















subsection \<open>grm_mml and grm_separate\<close>




text \<open>\<^verbatim>\<open>xs[start:stop] = vals\<close> on an array of numbers.\<close>

definition set_range :: "real list \<Rightarrow> nat \<Rightarrow> nat \<Rightarrow> real list \<Rightarrow> real list" where
  "set_range xs start stop vals =
     map (\<lambda>j. if start \<le> j \<and> j < stop then vals ! (j - start) else xs ! j) [0..<length xs]"

text \<open>\<^verbatim>\<open>xs[start:stop] = v\<close> for a single number \<open>v\<close>.\<close>

definition fill_range :: "real list \<Rightarrow> nat \<Rightarrow> nat \<Rightarrow> real \<Rightarrow> real list" where
  "fill_range xs start stop v =
     map (\<lambda>j. if start \<le> j \<and> j < stop then v else xs ! j) [0..<length xs]"



















subsection \<open>An example configuration\<close>

text \<open>
  Stand-ins for the outside routines, small enough to compute with: an optimiser that
  tries the midpoint of its bounds once and returns it, a rule whose nodes all sit at the
  midpoint of the interval with equal positive weights of sum 2, and a root finder that
  returns the midpoint of its bracket.
\<close>

definition single_trial :: "'x \<Rightarrow> 'x optimizer" where
  "single_trial x =
     \<lparr>next_trial = (\<lambda>h. if h = [] then Some x else None), answer = (\<lambda>h. x), maxfun = 1\<rparr>"

definition example_external :: "options external" where
  "example_external =
     \<lparr>validate_estimation_options = (\<lambda>opts. opts),
      sign_of = (\<lambda>b. if b then - 1 else 1),
      get_quadrature_points = (\<lambda>n a b. replicate n ((a + b) / 2)),
      leggauss_weights = (\<lambda>n. replicate n (2 / real n)),
      fminbound = (\<lambda>lo hi. single_trial ((lo + hi) / 2)),
      fmin_slsqp = (\<lambda>x0 bounds. single_trial (map (\<lambda>b. (fst b + snd b) / 2) bounds)),
      leggauss_nodes = (\<lambda>n. replicate n 0),
      brentq = (\<lambda>f a b. Inr ((a + b) / 2)),
      irt_evaluation = (\<lambda>b a t. 1 / (1 + exp (- a * (t - b)))),
      condition_polytomous_response =
        (\<lambda>dataset trim_ends reference. ([[0, 1, 1], [2, 3, 4]], [2, 3])),
      credit_partial_integral = (\<lambda>th betas disc resp. map (\<lambda>r. map (\<lambda>t. 1) th) resp),
      solve_for_constants = (\<lambda>resp. replicate (length (remdups resp) - 1) (1 / 2)),
      solve_integral_equations = (\<lambda>disc constants dens th. map (\<lambda>c. disc) constants)\<rparr>"


definition example_dataset :: dataset where
  "example_dataset = \<lparr>shape1 = 2, rows = [[True, False]]\<rparr>"


subsection \<open>The bounds of twopl_full\<close>


subsection \<open>A rule with positive weights, and an item nobody endorses\<close>

text \<open>
  The rule of order 61 has 61 positive weights, and
  \<^verbatim>\<open>_get_quadrature_points(61, -5, 5)\<close> gives 61 nodes.
\<close>

definition positive_rule :: "'o external \<Rightarrow> bool" where
  "positive_rule ext =
     (length (leggauss_weights ext 61) = 61 \<and>
      list_all (\<lambda>w. 0 < w) (leggauss_weights ext 61) \<and>
      length (get_quadrature_points ext 61 (- 5) 5) = 61)"

text \<open>One item, one participant, who does not endorse the item.\<close>

definition all_no_dataset :: dataset where
  "all_no_dataset = \<lparr>shape1 = 1, rows = [[False]]\<rparr>"

subsection \<open>How many passes a loop makes\<close>

text \<open>
  The loop makes \<open>k\<close> passes: at most \<open>cap\<close>; every pass before the last one leaves a
  change that is not small; when the loop stops before the cap, the last pass has left a
  small change.
\<close>

definition runs_passes ::
  "nat \<Rightarrow> ('s \<Rightarrow> 's) \<Rightarrow> ('s \<Rightarrow> 's \<Rightarrow> error + bool) \<Rightarrow> 's \<Rightarrow> nat \<Rightarrow> bool" where
  "runs_passes cap pass settled s k =
     (k \<le> cap \<and>
      (\<forall>j. Suc j < k \<longrightarrow> settled ((pass ^^ j) s) ((pass ^^ Suc j) s) = Inr False) \<and>
      (k < cap \<longrightarrow> 0 < k \<and> settled ((pass ^^ (k - 1)) s) ((pass ^^ k) s) = Inr True))"

subsection \<open>What twopl_full keeps of an optimiser run\<close>










subsection \<open>The root finder, the minimiser and a matching configuration\<close>

text \<open>
  What \<^verbatim>\<open>_mml_abstract\<close> writes for one item:
  \<^verbatim>\<open>difficulty[item_ndx] = fminbound(min_zero_local, -6, 6)\<close>.
\<close>

definition mml_item_difficulty ::
  "'o external \<Rightarrow> real \<Rightarrow> real \<Rightarrow> real list \<Rightarrow> real list \<Rightarrow> real" where
  "mml_item_difficulty ext discrimination_i scalar_i th dens =
     minimize_pure (fminbound ext (- 6) 6)
       (mml_min_zero_local ext discrimination_i scalar_i th dens)"

text \<open>
  What \<^verbatim>\<open>brentq\<close> promises: a value it returns is a zero of the function, inside
  the bracket. (Without a sign change over the bracket it raises.)
\<close>

definition finds_roots :: "'o external \<Rightarrow> bool" where
  "finds_roots ext =
     (\<forall>f a b r. brentq ext f a b = Inr r \<longrightarrow> f r = 0 \<and> a \<le> r \<and> r \<le> b)"

text \<open>The point \<open>r\<close> of [lo, hi] is one where \<open>f\<close> is least on [lo, hi].\<close>

definition minimises_on :: "(real \<Rightarrow> real) \<Rightarrow> real \<Rightarrow> real \<Rightarrow> real \<Rightarrow> bool" where
  "minimises_on f lo hi r = (lo \<le> r \<and> r \<le> hi \<and> (\<forall>x. lo \<le> x \<and> x \<le> hi \<longrightarrow> f r \<le> f x))"

text \<open>
  The example configuration with a rule that gives the standard normal density the
  integral 1, at order 61 over [-5, 5] and at order 101 over [-10, 10], and with a root
  finder that returns the midpoint of its bracket when the function is zero there and
  raises otherwise.
\<close>

definition matching_external :: "options external" where
  "matching_external =
     example_external
       \<lparr>leggauss_weights :=
          (\<lambda>n. replicate n (sqrt (2 * pi) / (real n * (if n = 101 then 10 else 5)))),
        brentq :=
          (\<lambda>f a b. if a \<le> b \<and> f ((a + b) / 2) = 0 then Inr ((a + b) / 2)
                   else Inl ValueError)\<rparr>"

section \<open>Properties\<close>

subsection \<open>Pattern counts\<close>

lemma length_columns: "length (columns ds) = shape1 ds"
  by (simp add: columns_def)

lemma distinct_remdups_adj_sorted:
  fixes xs :: "('a::linorder) list"
  shows "sorted xs \<Longrightarrow> distinct (remdups_adj xs)"
proof (induction xs rule: remdups_adj.induct)
  case (3 x y xs)
  then show ?case by (auto simp: order.strict_iff_order)
qed simp_all

lemma sum_list_counts_remdups_adj_sort:
  fixes cols :: "('a::linorder) list"
  shows "sum_list (map (count_list cols) (remdups_adj (sort cols))) = length cols"
proof -
  have d: "distinct (remdups_adj (sort cols))"
    by (rule distinct_remdups_adj_sorted) simp
  have "sum_list (map (count_list cols) (remdups_adj (sort cols)))
        = sum (count_list cols) (set (remdups_adj (sort cols)))"
    using d by (rule sum_list_distinct_conv_sum_set)
  also have "\<dots> = sum (count_list cols) (set cols)" by simp
  also have "\<dots> = length cols" by (rule sum_count_set) simp_all
  finally show ?thesis .
qed

text \<open>
  C3: the multiplicities returned by the deduplication of the columns of a dichotomous
  dataset add up to the number of participants, the number of columns of the dataset.
\<close>

theorem pattern_counts_sum_to_participants:
  "sum_list (counts ds) = shape1 ds"
  unfolding counts_def np_unique_axis1_def Let_def snd_conv
  by (simp only: sum_list_counts_remdups_adj_sort length_columns)

subsection \<open>The accumulator of the dichotomous models\<close>













lemma item_factor_update [simp]:
  "item_factor su (s\<lparr>partial_int := x\<rparr>) = item_factor su s"
  by (simp add: item_factor_def fun_eq_iff)



lemma run_trials_invariant:
  assumes "I s"
    and "\<And>h x s v s'. nxt h = Some x \<Longrightarrow> I s \<Longrightarrow> f x s = (v, s') \<Longrightarrow> I s'"
  shows "I (snd (run_trials n nxt f hist s))"
  using assms(1)
proof (induction n arbitrary: hist s)
  case 0
  then show ?case by simp
next
  case (Suc n)
  show ?case
  proof (cases "nxt hist")
    case None
    then show ?thesis using Suc.prems by simp
  next
    case (Some x)
    obtain v s' where fx: "f x s = (v, s')" by (cases "f x s")
    have "I s'" using assms(2)[OF Some Suc.prems fx] .
    then show ?thesis using Some fx Suc.IH by simp
  qed
qed

lemma minimize_invariant:
  assumes "I s"
    and "\<And>h x s v s'. next_trial opt h = Some x \<Longrightarrow> I s \<Longrightarrow> f x s = (v, s') \<Longrightarrow> I s'"
  shows "I (snd (minimize opt f s))"
proof -
  have "I (snd (run_trials (maxfun opt) (next_trial opt) f [] s))"
    using assms by (rule run_trials_invariant)
  then show ?thesis by (auto simp: minimize_def split: prod.splits)
qed

lemma same_except_refl: "same_except k s s"
  by (simp add: same_except_def)



lemma remove_item_params [simp]:
  "discrimination (remove_item su k s) = discrimination s"
  "difficulty (remove_item su k s) = difficulty s"
  by (simp_all add: remove_item_def)

lemma reinsert_item_params [simp]:
  "discrimination (reinsert_item su k s) = discrimination s"
  "difficulty (reinsert_item su k s) = difficulty s"
  by (simp_all add: reinsert_item_def)


lemma step_params:
  assumes "same_except k (remove_item su k s) t" "i \<noteq> k"
  shows "discrimination (reinsert_item su k t) ! i = discrimination s ! i"
    and "difficulty (reinsert_item su k t) ! i = difficulty s ! i"
  using assms by (simp_all add: same_except_def)





subsection \<open>The sign convention of the separate estimators\<close>

lemma kernel_endorsed: "kernel (- 1) disc diff t = endorsement_probability disc diff t"
  by (simp add: kernel_def endorsement_probability_def)

lemma logistic_complement:
  fixes x :: real
  shows "1 / (1 + exp x) = 1 - 1 / (1 + exp (- x))"
proof -
  define e where "e = exp x"
  have e: "0 < e" by (simp add: e_def)
  have m: "exp (- x) = 1 / e" by (simp add: e_def exp_minus inverse_eq_divide)
  have "1 / (1 + e) = 1 - 1 / (1 + 1 / e)"
    using e by (simp add: field_simps)
  then show ?thesis unfolding m e_def .
qed

lemma kernel_not_endorsed: "kernel 1 disc diff t = 1 - endorsement_probability disc diff t"
  using logistic_complement[of "disc * (t - diff)"]
  by (simp add: kernel_def endorsement_probability_def)

lemma quadrature_function_entry:
  fixes x sg t a b a_old b_old :: real
  shows "x * (1 + exp (sg * (t - b_old) * a_old)) / (1 + exp (sg * (t - b) * a))
      = x * kernel sg a b t / kernel sg a_old b_old t"
proof -
  have e1: "sg * (t - b) * a = sg * a * (t - b)" by simp
  have e2: "sg * (t - b_old) * a_old = sg * a_old * (t - b_old)" by simp
  show ?thesis unfolding kernel_def e1 e2 by simp
qed

lemma quadrature_function_kernel:
  "twopl_separate_quadrature_function th a a_old b b_old acc sg_row =
     map2 (\<lambda>row sg. map2 (\<lambda>x t. x * kernel (real_of_int sg) a b t
                                    / kernel (real_of_int sg) a_old b_old t) row th)
          acc sg_row"
  unfolding twopl_separate_quadrature_function_def quadrature_function_entry ..

text \<open>
  C4, as the code has it: in \<^verbatim>\<open>onepl_separate\<close> and \<^verbatim>\<open>twopl_separate\<close> the
  sign array holds -1 where the pattern endorses the item (True) and +1 where it does not
  (False). The sign multiplies \<^verbatim>\<open>discrimination * (theta - difficulty)\<close> in the
  exponent of \<^verbatim>\<open>1 / (1 + exp(...))\<close>: with the sign of an entry the one formula gives
  the probability of an endorsement for an endorsed entry and the probability of the
  opposite for the other, the two adding up to 1; and \<^verbatim>\<open>quadrature_function\<close> of
  \<^verbatim>\<open>twopl_separate\<close> multiplies the accumulator by this formula at the new parameters
  and divides it by the formula at the old ones.
\<close>

theorem separate_sign_convention:
  "onepl_separate_the_sign ds = map (map (\<lambda>b. if b then - 1 else 1)) (unique_sets ds) \<and>
   twopl_separate_the_sign ds = map (map (\<lambda>b. if b then - 1 else 1)) (unique_sets ds) \<and>
   kernel (real_of_int ((- 1) ^ exponent_of b)) disc diff t =
     (if b then endorsement_probability disc diff t
      else 1 - endorsement_probability disc diff t) \<and>
   kernel (- 1) disc diff t + kernel 1 disc diff t = 1 \<and>
   twopl_separate_quadrature_function th disc old_disc diff old_diff acc sign_row =
     map2 (\<lambda>row sg. map2 (\<lambda>x t. x * kernel (real_of_int sg) disc diff t
                                    / kernel (real_of_int sg) old_disc old_diff t) row th)
          acc sign_row"
proof (intro conjI)
  show "onepl_separate_the_sign ds = map (map (\<lambda>b. if b then - 1 else 1)) (unique_sets ds)"
    by (simp add: onepl_separate_the_sign_def sign_power_def exponent_of_def if_distrib
        cong: if_cong)
  show "twopl_separate_the_sign ds = map (map (\<lambda>b. if b then - 1 else 1)) (unique_sets ds)"
    by (simp add: twopl_separate_the_sign_def sign_power_def exponent_of_def if_distrib
        cong: if_cong)
  show "kernel (real_of_int ((- 1) ^ exponent_of b)) disc diff t =
     (if b then endorsement_probability disc diff t
      else 1 - endorsement_probability disc diff t)"
    by (simp add: exponent_of_def kernel_endorsed kernel_not_endorsed)
  show "kernel (- 1) disc diff t + kernel 1 disc diff t = 1"
    by (simp add: kernel_endorsed kernel_not_endorsed)
  show "twopl_separate_quadrature_function th disc old_disc diff old_diff acc sign_row =
     map2 (\<lambda>row sg. map2 (\<lambda>x t. x * kernel (real_of_int sg) disc diff t
                                    / kernel (real_of_int sg) old_disc old_diff t) row th)
          acc sign_row"
    by (rule quadrature_function_kernel)
qed

text \<open>
  One item answered True by the first participant and False by the second: the patterns
  are False, True in this order, and the signs are +1 for False and -1 for True, the
  reverse of "+1 for an endorsed entry".
\<close>

theorem endorsed_sign_counterexample:
  "onepl_separate_the_sign \<lparr>shape1 = 2, rows = [[True, False]]\<rparr> = [[1, - 1]] \<and>
   twopl_separate_the_sign \<lparr>shape1 = 2, rows = [[True, False]]\<rparr> = [[1, - 1]] \<and>
   unique_sets \<lparr>shape1 = 2, rows = [[True, False]]\<rparr> = [[False, True]]"
  by code_simp

subsection \<open>The Rasch estimators are the 1PL estimators at a fixed discrimination\<close>

text \<open>
  C10: \<^verbatim>\<open>rasch_full(dataset, d, options)\<close> is the difficulty array of
  \<^verbatim>\<open>onepl_full(dataset, alpha=d, options)\<close> (and raises when that raises), whose
  first component is the \<open>d\<close> it was given; \<^verbatim>\<open>rasch_mml(dataset, d)\<close> is the
  difficulty array of \<^verbatim>\<open>onepl_mml(dataset, alpha=d)\<close>, whose first component is
  \<open>d\<close> again.
\<close>

theorem rasch_is_onepl_with_fixed_discrimination:
  "rasch_full ext ds d opts = map_sum id snd (onepl_full ext ds (Some d) opts) \<and>
   map_sum id fst (onepl_full ext ds (Some d) opts)
     = map_sum id (\<lambda>r. d) (onepl_full ext ds (Some d) opts) \<and>
   rasch_mml ext ds d = snd (onepl_mml ext ds (Some d)) \<and>
   fst (onepl_mml ext ds (Some d)) = d"
  by (auto simp: rasch_full_def rasch_mml_def onepl_full_def onepl_mml_def Let_def
      split: sum.splits prod.splits)

subsection \<open>Invariants of loops and folds\<close>

lemma iterate_passes_invariant:
  assumes "\<And>s. I s \<Longrightarrow> I (pass s)"
  shows "I s \<Longrightarrow> iterate_passes n pass conv s = Inr s' \<Longrightarrow> I s'"
proof (induction n arbitrary: s)
  case 0
  then show ?case by simp
next
  case (Suc n)
  have "I (pass s)" using assms Suc.prems(1) .
  then show ?case using Suc.prems(2) Suc.IH[of "pass s"]
    by (auto split: sum.splits if_splits)
qed

lemma fold_invariant:
  assumes "\<And>k s. I s \<Longrightarrow> I (f k s)"
  shows "I s \<Longrightarrow> I (fold f xs s)"
  by (induction xs arbitrary: s) (simp_all add: assms)

lemma list_all_update:
  "list_all P xs \<Longrightarrow> P v \<Longrightarrow> list_all P (xs[k := v])"
  by (metis list_all_iff set_update_subset_insert subset_code(1) insert_iff)

subsection \<open>The separable difficulty steps\<close>

lemma fold_update_nth:
  "i < n \<Longrightarrow> n \<le> length d0 \<Longrightarrow> fold (\<lambda>k d. d[k := g k]) [0..<n] d0 ! i = g i"
proof (induction n)
  case 0
  then show ?case by simp
next
  case (Suc n)
  have len: "length (fold (\<lambda>k d. d[k := g k]) [0..<m] d0) = length d0" for m
    by (induction m) simp_all
  show ?case
  proof (cases "i = n")
    case True
    then show ?thesis using Suc.prems len[of n] by simp
  next
    case False
    then show ?thesis using Suc by simp
  qed
qed

lemma mml_abstract_nth:
  "i < length d0 \<Longrightarrow>
   mml_abstract ext d0 sc a th dens ! i =
     minimize_pure (fminbound ext (- 6) 6) (mml_min_zero_local ext (a ! i) (sc ! i) th dens)"
  unfolding mml_abstract_def by (rule fold_update_nth) simp_all

lemma length_mml_abstract: "length (mml_abstract ext d0 sc a th dens) = length d0"
proof -
  have "length (fold (\<lambda>k d. d[k := g k]) xs d0) = length d0" for g :: "nat \<Rightarrow> real" and xs
    by (induction xs arbitrary: d0) simp_all
  then show ?thesis unfolding mml_abstract_def .
qed

lemma rasch_separate_loop_keeps:
  "rasch_separate_loop ext sc disc xs ps0 = Inr ps \<Longrightarrow>
   length ps = length ps0 \<and> (\<forall>k. k \<notin> set xs \<longrightarrow> ps ! k = ps0 ! k)"
proof (induction xs arbitrary: ps0)
  case Nil
  then show ?case by simp
next
  case (Cons x xs)
  then show ?case by (fastforce split: sum.splits if_splits)
qed

lemma rasch_separate_loop_roots:
  "rasch_separate_loop ext sc disc xs ps0 = Inr ps \<Longrightarrow> distinct xs \<Longrightarrow>
   \<forall>k\<in>set xs. k < length ps0 \<Longrightarrow> k \<in> set xs \<Longrightarrow>
   brentq ext (separate_min_zero_local ext (sc ! k) (disc ! k)) (- 6) 6 = Inr (ps ! k)"
proof (induction xs arbitrary: ps0)
  case Nil
  then show ?case by simp
next
  case (Cons x xs)
  then obtain r where r: "brentq ext (separate_min_zero_local ext (sc ! x) (disc ! x)) (- 6) 6 = Inr r"
    and rest: "rasch_separate_loop ext sc disc xs (ps0[x := r]) = Inr ps"
    by (auto split: sum.splits if_splits)
  show ?case
  proof (cases "k = x")
    case True
    have "ps ! x = (ps0[x := r]) ! x"
      using rasch_separate_loop_keeps[OF rest] Cons.prems(2) by simp
    then show ?thesis using True r Cons.prems(3) by simp
  next
    case False
    then show ?thesis using Cons.IH[OF rest] Cons.prems by simp
  qed
qed

lemma sum_list_pos_nonempty:
  fixes xs :: "real list"
  shows "xs \<noteq> [] \<Longrightarrow> (\<forall>x\<in>set xs. 0 < x) \<Longrightarrow> 0 < sum_list xs"
  by (induction xs) (auto intro: add_pos_nonneg sum_list_nonneg less_imp_le)

lemma standard_normal_pdf_pos: "0 < standard_normal_pdf t"
  by (simp add: standard_normal_pdf_def)

lemma map2_mult_pos:
  fixes xs ys :: "real list"
  assumes "\<forall>x\<in>set xs. 0 < x" "\<forall>y\<in>set ys. 0 < y"
  shows "\<forall>z\<in>set (map2 (*) xs ys). 0 < z"
  using assms by (auto elim!: in_set_zipE)

lemma mml_integral_pos:
  assumes "list_all (\<lambda>w. 0 < w) (leggauss_weights ext 61)" "leggauss_weights ext 61 \<noteq> []"
    and "th \<noteq> []"
  shows "0 < mml_integral ext a th (map standard_normal_pdf th) e"
proof -
  let ?row = "map2 (*) (map (\<lambda>t. 1 / (1 + exp (a * (e - t)))) th) (map standard_normal_pdf th)"
  let ?terms = "map2 (*) (leggauss_weights ext 61) ?row"
  have rowpos: "\<forall>x\<in>set ?row. 0 < x"
    by (rule map2_mult_pos) (auto simp: standard_normal_pdf_pos add_pos_pos)
  have "?terms \<noteq> []" using assms(2,3) by (cases th; cases "leggauss_weights ext 61") auto
  moreover have "\<forall>x\<in>set ?terms. 0 < x"
  proof (rule map2_mult_pos)
    show "\<forall>x\<in>set (leggauss_weights ext 61). 0 < x"
      using assms(1) by (simp add: list_all_iff)
    show "\<forall>y\<in>set ?row. 0 < y" by (rule rowpos)
  qed
  ultimately have "0 < sum_list ?terms" by (rule sum_list_pos_nonempty)
  then show ?thesis by (simp add: mml_integral_def fixed_quad_row_def)
qed

lemma mml_min_zero_local_zero:
  "0 \<le> mml_min_zero_local ext a sc th dens e \<and>
   (mml_min_zero_local ext a sc th dens e = 0) = (mml_integral ext a th dens e = sc)"
  by (simp add: mml_min_zero_local_def)

lemma minimize_no_state: "snd (minimize opt (\<lambda>x u. (f x, u)) s) = s"
  by (rule minimize_invariant[where I = "\<lambda>t. t = s"]) auto

lemma onepl_mml_difficulty:
  assumes "i < n_items_of ds"
  shows "snd (onepl_mml ext ds (Some a)) ! i =
     minimize_pure (fminbound ext (- 6) 6)
       (mml_min_zero_local ext a (scalar ds ! i) (theta (mml_prepare ext ds))
          (prior (mml_prepare ext ds)))"
  using assms
  by (simp add: onepl_mml_def onepl_mml_min_func_def Let_def mml_abstract_nth
      initial_estimates_def mml_prepare_def)

lemma twopl_mml_local_difficulty:
  assumes "ndx < length (difficulty s)" "ndx < length (discrimination s)"
  shows "difficulty (snd (twopl_mml_min_func_local ext ds su ndx estimate s)) ! ndx =
     minimize_pure (fminbound ext (- 6) 6)
       (mml_min_zero_local ext estimate (scalar ds ! ndx) (theta su) (prior su))"
  using assms
  by (simp add: twopl_mml_min_func_local_def Let_def mml_abstract_nth)

lemma minimize_pure_single_trial: "minimize_pure (single_trial x) f = x"
  by (simp add: minimize_pure_def minimize_def single_trial_def)

lemma all_no_item_never_matched:
  assumes "positive_rule ext"
  shows "mml_integral ext a (theta (mml_prepare ext all_no_dataset))
           (prior (mml_prepare ext all_no_dataset)) e \<noteq> scalar all_no_dataset ! 0"
proof -
  have w: "list_all (\<lambda>w. 0 < w) (leggauss_weights ext 61)" "leggauss_weights ext 61 \<noteq> []"
    and th: "get_quadrature_points ext 61 (- 5) 5 \<noteq> []"
    using assms by (auto simp: positive_rule_def)
  have "0 < mml_integral ext a (get_quadrature_points ext 61 (- 5) 5)
              (map standard_normal_pdf (get_quadrature_points ext 61 (- 5) 5)) e"
    by (rule mml_integral_pos[OF w th])
  moreover have "scalar all_no_dataset ! 0 = 0"
    by (simp add: scalar_def get_true_false_counts_def all_no_dataset_def)
  ultimately show ?thesis by (simp add: mml_prepare_def Let_def)
qed

text \<open>
  One participant who does not endorse the item: the observed proportion is 0, the
  model-implied probability is positive at every difficulty, and the difficulty step
  still returns a difficulty.
\<close>

theorem all_no_item_counterexample:
  "scalar all_no_dataset = [0] \<and>
   rasch_mml example_external all_no_dataset 1 = [0] \<and>
   mml_integral example_external 1 (theta (mml_prepare example_external all_no_dataset))
     (prior (mml_prepare example_external all_no_dataset))
     (rasch_mml example_external all_no_dataset 1 ! 0) \<noteq> scalar all_no_dataset ! 0"
proof -
  have p: "positive_rule example_external"
    by (simp add: positive_rule_def example_external_def list_all_iff)
  have s: "scalar all_no_dataset = [0]"
    by (simp add: scalar_def get_true_false_counts_def all_no_dataset_def)
  have "fminbound example_external (- 6) 6 = single_trial 0"
    by (simp add: example_external_def)
  then have m: "rasch_mml example_external all_no_dataset 1 = [0]"
    by (simp add: rasch_mml_def onepl_mml_def onepl_mml_min_func_def Let_def mml_prepare_def
        n_items_of_def all_no_dataset_def initial_estimates_def mml_abstract_def
        minimize_pure_single_trial)
  show ?thesis using s m all_no_item_never_matched[OF p] by simp
qed

subsection \<open>The outer loops\<close>

lemma iterate_passes_runs:
  assumes pres: "\<And>s. I s \<Longrightarrow> I (pass s)"
    and ok: "\<And>s t. I s \<Longrightarrow> I t \<Longrightarrow> \<exists>b. settled s t = Inr b"
  shows "I s \<Longrightarrow> \<exists>k. runs_passes cap pass settled s k \<and>
                      iterate_passes cap pass settled s = Inr ((pass ^^ k) s)"
proof (induction cap arbitrary: s)
  case 0
  then show ?case by (intro exI[of _ 0]) (simp add: runs_passes_def)
next
  case (Suc cap)
  have Ip: "I (pass s)" using pres Suc.prems .
  obtain b where b: "settled s (pass s) = Inr b" using ok[OF Suc.prems Ip] by blast
  show ?case
  proof (cases b)
    case True
    then show ?thesis using b
      by (intro exI[of _ 1]) (simp add: runs_passes_def)
  next
    case False
    obtain k where k: "runs_passes cap pass settled (pass s) k"
      and r: "iterate_passes cap pass settled (pass s) = Inr ((pass ^^ k) (pass s))"
      using Suc.IH[OF Ip] by blast
    have shift: "(pass ^^ j) (pass s) = (pass ^^ Suc j) s" for j
      by (simp add: funpow_swap1)
    have "runs_passes (Suc cap) pass settled s (Suc k)"
      unfolding runs_passes_def
    proof (intro conjI allI impI)
      show "Suc k \<le> Suc cap" using k by (simp add: runs_passes_def)
    next
      fix j assume j: "Suc j < Suc k"
      show "settled ((pass ^^ j) s) ((pass ^^ Suc j) s) = Inr False"
      proof (cases j)
        case 0
        then show ?thesis using b False by simp
      next
        case (Suc i)
        then have "Suc i < k" using j by simp
        then have "settled ((pass ^^ i) (pass s)) ((pass ^^ Suc i) (pass s)) = Inr False"
          using k by (simp add: runs_passes_def)
        then show ?thesis using Suc shift[of i] shift[of "Suc i"] by simp
      qed
    next
      assume "Suc k < Suc cap"
      then show "0 < Suc k" by simp
    next
      assume "Suc k < Suc cap"
      then have kc: "k < cap" by simp
      then have k0: "0 < k" and st: "settled ((pass ^^ (k - 1)) (pass s)) ((pass ^^ k) (pass s)) = Inr True"
        using k by (simp_all add: runs_passes_def)
      then show "settled ((pass ^^ (Suc k - 1)) s) ((pass ^^ Suc k) s) = Inr True"
        using shift[of "k - 1"] shift[of k] by simp
    qed
    then show ?thesis using b False r shift[of k] by (intro exI[of _ "Suc k"]) simp
  qed
qed





lemma small_change_Inr:
  "a \<noteq> [] \<Longrightarrow> b \<noteq> [] \<Longrightarrow> \<exists>r. small_change a b = Inr r"
  by (cases a; cases b) (auto simp: small_change_def max_abs_diff_def split: list.splits)

lemma twopl_mml_solve_same:
  "same_except k s (twopl_mml_solve ext ds su k s)"
  unfolding twopl_mml_solve_def
  by (rule minimize_invariant[where I = "same_except k s"])
     (auto simp: same_except_refl twopl_mml_min_func_local_def Let_def same_except_def)


lemma fold_steps_lengths:
  assumes step: "\<And>k s. item_step k s = reinsert_item su k (solve k (remove_item su k s))"
    and solve: "\<And>k s. same_except k s (solve k s)"
  shows "length (discrimination (fold item_step xs s)) = length (discrimination s) \<and>
         length (difficulty (fold item_step xs s)) = length (difficulty s)"
proof (induction xs arbitrary: s)
  case Nil
  then show ?case by simp
next
  case (Cons x xs)
  have "length (discrimination (item_step x s)) = length (discrimination s) \<and>
        length (difficulty (item_step x s)) = length (difficulty s)"
    using solve[of x "remove_item su x s"] by (subst (1 2) step) (simp add: same_except_def)
  then show ?case using Cons.IH[of "item_step x s"] by simp
qed


lemma twopl_mml_pass_lengths:
  "length (discrimination (twopl_mml_pass ext ds su s)) = length (discrimination s) \<and>
   length (difficulty (twopl_mml_pass ext ds su s)) = length (difficulty s)"
  using fold_steps_lengths[of "twopl_mml_item ext ds su" su "twopl_mml_solve ext ds su"
      "[0..<n_items su]" "full_rebuild su s"]
  by (simp add: twopl_mml_pass_def twopl_mml_item_def twopl_mml_solve_same full_rebuild_def)



lemma length_fill_range [simp]: "length (fill_range xs a b v) = length xs"
  by (simp add: fill_range_def)

lemma length_set_range [simp]: "length (set_range xs a b v) = length xs"
  by (simp add: set_range_def)



lemma funpow_invariant:
  assumes "\<And>s. I s \<Longrightarrow> I (f s)" "I s"
  shows "I ((f ^^ k) s)"
  by (induction k) (simp_all add: assms)


lemma twopl_mml_loop:
  assumes "0 < n_items_of ds"
  shows "let pass = twopl_mml_pass ext ds (mml_prepare ext ds);
             s0 = initial_estimates (n_items_of ds)
         in \<exists>k. runs_passes (nat max_iter) pass discrimination_settled s0 k \<and>
                twopl_mml ext ds max_iter =
                  Inr (discrimination ((pass ^^ k) s0), difficulty ((pass ^^ k) s0))"
proof -
  let ?su = "mml_prepare ext ds"
  let ?s0 = "initial_estimates (n_items_of ds)"
  let ?I = "\<lambda>s::estimates. length (discrimination s) = n_items_of ds"
  have n: "n_items ?su = n_items_of ds" by (simp add: mml_prepare_def Let_def)
  have "\<exists>k. runs_passes (nat max_iter) (twopl_mml_pass ext ds ?su) discrimination_settled ?s0 k \<and>
     iterate_passes (nat max_iter) (twopl_mml_pass ext ds ?su) discrimination_settled ?s0
       = Inr ((twopl_mml_pass ext ds ?su ^^ k) ?s0)"
  proof (rule iterate_passes_runs[where I = ?I])
    fix s :: estimates assume "?I s"
    then show "?I (twopl_mml_pass ext ds ?su s)" by (simp add: twopl_mml_pass_lengths)
  next
    fix s t :: estimates assume "?I s" "?I t"
    then have "discrimination t \<noteq> []" "discrimination s \<noteq> []" using assms by auto
    then show "\<exists>b. discrimination_settled s t = Inr b"
      unfolding discrimination_settled_def by (rule small_change_Inr)
  next
    show "?I ?s0" by (simp add: initial_estimates_def)
  qed
  then obtain k where k: "runs_passes (nat max_iter) (twopl_mml_pass ext ds ?su) discrimination_settled ?s0 k"
    and r: "iterate_passes (nat max_iter) (twopl_mml_pass ext ds ?su) discrimination_settled ?s0
              = Inr ((twopl_mml_pass ext ds ?su ^^ k) ?s0)"
    by blast
  have "twopl_mml ext ds max_iter =
      Inr (discrimination ((twopl_mml_pass ext ds ?su ^^ k) ?s0),
           difficulty ((twopl_mml_pass ext ds ?su ^^ k) ?s0))"
    by (simp add: twopl_mml_def Let_def n r)
  then show ?thesis unfolding Let_def using k by blast
qed













subsection \<open>twopl_full keeps the last point its optimiser tried\<close>





lemma sum_list_map2_nth:
  fixes f :: "'a \<Rightarrow> 'b \<Rightarrow> real"
  assumes "length xs = n" "length ys = n"
  shows "sum_list (map2 f xs ys) = (\<Sum>i<n. f (xs ! i) (ys ! i))"
proof -
  have "sum_list (map2 f xs ys) = (\<Sum>i = 0..<length (map2 f xs ys). map2 f xs ys ! i)"
    by (rule sum_list_sum_nth)
  also have "\<dots> = (\<Sum>i = 0..<n. f (xs ! i) (ys ! i))"
    using assms by (intro sum.cong) auto
  finally show ?thesis by (simp add: lessThan_atLeast0)
qed


















subsection \<open>What the separable difficulty solvers return\<close>

lemma scalar_nth:
  assumes "i < n_items_of ds"
  shows "scalar ds ! i =
     real (length (filter id (rows ds ! i))) / real (length (rows ds ! i))"
proof -
  have "length (filter id r) + length (filter Not r) = length r" for r :: "bool list"
    using sum_length_filter_compl[of id r] by (simp add: comp_def)
  then have "real (length (filter id r)) + real (length (filter Not r)) = real (length r)"
    for r :: "bool list"
    by (metis of_nat_add)
  then show ?thesis
    using assms by (simp add: scalar_def get_true_false_counts_def Let_def n_items_of_def)
qed

lemma length_scalar: "length (scalar ds) = n_items_of ds"
  by (simp add: scalar_def get_true_false_counts_def Let_def n_items_of_def)

lemma rasch_separate_matches:
  assumes c: "finds_roots ext" and r: "rasch_separate ext ds d = Inr ps"
    and i: "i < n_items_of ds"
  shows "separate_integral ext (as_array (n_items_of ds) d ! i) (ps ! i) = scalar ds ! i"
    and "- 6 \<le> ps ! i" and "ps ! i \<le> 6"
proof -
  have b: "brentq ext (separate_min_zero_local ext (scalar ds ! i)
           (as_array (n_items_of ds) d ! i)) (- 6) 6 = Inr (ps ! i)"
    by (rule rasch_separate_loop_roots[OF r[unfolded rasch_separate_def]]) (use i in simp_all)
  from c[unfolded finds_roots_def, rule_format, OF b]
  show "separate_integral ext (as_array (n_items_of ds) d ! i) (ps ! i) = scalar ds ! i"
    and "- 6 \<le> ps ! i" and "ps ! i \<le> 6"
    by (simp_all add: separate_min_zero_local_def)
qed

lemma length_rasch_separate:
  "rasch_separate ext ds d = Inr ps \<Longrightarrow> length ps = n_items_of ds"
  using rasch_separate_loop_keeps[of ext "scalar ds" "as_array (n_items_of ds) d"
      "[0..<n_items_of ds]" "replicate (n_items_of ds) 0" ps]
  by (simp add: rasch_separate_def)

lemma rasch_separate_loop_short:
  "k \<in> set xs \<Longrightarrow> length disc \<le> k \<Longrightarrow> \<exists>e. rasch_separate_loop ext sc disc xs ps = Inl e"
proof (induction xs arbitrary: ps)
  case Nil
  then show ?case by simp
next
  case (Cons x xs)
  then show ?case by (cases "k = x") (auto split: sum.splits)
qed

lemma rasch_separate_short:
  assumes "length xs < n_items_of ds"
  shows "\<exists>e. rasch_separate ext ds (Array xs) = Inl e"
  unfolding rasch_separate_def
  by (rule rasch_separate_loop_short[where k = "length xs"])
     (use assms in \<open>simp_all add: as_array_def\<close>)

lemma rasch_separate_empty:
  assumes "0 < n_items_of ds"
  shows "rasch_separate ext ds (Array []) = Inl IndexError"
proof -
  have "[0..<n_items_of ds] = 0 # [1..<n_items_of ds]"
    using assms by (simp add: upt_conv_Cons)
  then show ?thesis by (simp add: rasch_separate_def as_array_def)
qed

lemma separate_integral_formula:
  assumes "length (leggauss_weights ext 101) = 101" "length (leggauss_nodes ext 101) = 101"
  shows "separate_integral ext a b =
     10 * (\<Sum>k < 101. leggauss_weights ext 101 ! k *
             (irt_evaluation ext b a (10 * leggauss_nodes ext 101 ! k) *
              (1 / sqrt (2 * pi) * exp (- ((10 * leggauss_nodes ext 101 ! k)\<^sup>2) / 2))))"
proof -
  have x: "(10 - - 10) * (t + 1) / 2 + - 10 = 10 * t" for t :: real
    by (simp add: field_simps)
  show ?thesis
    unfolding separate_integral_def fixed_quad_fun_def quadrature_function_def x
    by (subst sum_list_map2_nth[OF assms]) simp
qed

lemma mml_integral_formula:
  assumes "length (leggauss_weights ext 61) = 61" "length th = 61" "length dens = 61"
  shows "mml_integral ext a th dens b =
     5 * (\<Sum>k < 61. leggauss_weights ext 61 ! k *
            (endorsement_probability a b (th ! k) * dens ! k))"
proof -
  have e: "1 / (1 + exp (a * (b - t))) = endorsement_probability a b t" for t
    by (simp add: endorsement_probability_def algebra_simps)
  have len: "length (map2 (*) (map (\<lambda>t. 1 / (1 + exp (a * (b - t)))) th) dens) = 61"
    using assms by simp
  have "sum_list (map2 (*) (leggauss_weights ext 61)
          (map2 (*) (map (\<lambda>t. 1 / (1 + exp (a * (b - t)))) th) dens)) =
        (\<Sum>k < 61. leggauss_weights ext 61 ! k *
           (map2 (*) (map (\<lambda>t. 1 / (1 + exp (a * (b - t)))) th) dens ! k))"
    by (rule sum_list_map2_nth[OF assms(1) len])
  also have "\<dots> = (\<Sum>k < 61. leggauss_weights ext 61 ! k *
            (endorsement_probability a b (th ! k) * dens ! k))"
    using assms by (intro sum.cong refl) (simp add: e)
  finally show ?thesis by (simp add: mml_integral_def fixed_quad_row_def)
qed

lemma minimum_of_square_matches:
  assumes m: "minimises_on (mml_min_zero_local ext a sc th dens) (- 6) 6 r"
    and b: "- 6 \<le> b" "b \<le> 6" "mml_integral ext a th dens b = sc"
  shows "mml_integral ext a th dens r = sc"
proof -
  have "mml_min_zero_local ext a sc th dens r \<le> mml_min_zero_local ext a sc th dens b"
    using m b(1,2) by (simp add: minimises_on_def)
  also have "\<dots> = 0" using b(3) by (simp add: mml_min_zero_local_def)
  finally have "mml_min_zero_local ext a sc th dens r = 0"
    using mml_min_zero_local_zero[of ext a sc th dens r] by simp
  then show ?thesis by (simp add: mml_min_zero_local_def)
qed

lemma onepl_mml_fixed_difficulty:
  assumes "i < n_items_of ds"
  shows "snd (onepl_mml ext ds (Some a)) ! i =
     mml_item_difficulty ext a (scalar ds ! i) (theta (mml_prepare ext ds))
       (prior (mml_prepare ext ds))"
  unfolding mml_item_difficulty_def using assms by (rule onepl_mml_difficulty)

lemma onepl_mml_min_func_difficulty:
  assumes "length (discrimination s) = n" "length (difficulty s) = n"
    and "onepl_mml_min_func ext ds su x s = (v, s')"
  shows "length (discrimination s') = n \<and> length (difficulty s') = n \<and>
     (\<forall>i < n. difficulty s' ! i =
        mml_item_difficulty ext x (scalar ds ! i) (theta su) (prior su))"
  using assms
  by (auto simp: onepl_mml_min_func_def Let_def length_mml_abstract mml_abstract_nth
      mml_item_difficulty_def)

lemma onepl_mml_search_difficulty:
  "length (snd (onepl_mml ext ds None)) = n_items_of ds \<and>
   (snd (onepl_mml ext ds None) = replicate (n_items_of ds) 0 \<or>
    (\<exists>a h. next_trial (fminbound ext (1 / 4) 10) h = Some a \<and>
       (\<forall>i < n_items_of ds.
          snd (onepl_mml ext ds None) ! i =
            mml_item_difficulty ext a (scalar ds ! i) (theta (mml_prepare ext ds))
              (prior (mml_prepare ext ds)))))"
proof -
  let ?su = "mml_prepare ext ds" and ?n = "n_items_of ds"
  let ?I = "\<lambda>s::estimates. length (discrimination s) = ?n \<and> length (difficulty s) = ?n \<and>
     (difficulty s = replicate ?n 0 \<or>
      (\<exists>a h. next_trial (fminbound ext (1 / 4) 10) h = Some a \<and>
         (\<forall>i < ?n. difficulty s ! i =
            mml_item_difficulty ext a (scalar ds ! i) (theta ?su) (prior ?su))))"
  have n: "n_items ?su = ?n" by (simp add: mml_prepare_def Let_def)
  have "?I (snd (minimize (fminbound ext (1 / 4) 10) (onepl_mml_min_func ext ds ?su)
                  (initial_estimates ?n)))"
  proof (rule minimize_invariant[where I = ?I])
    show "?I (initial_estimates ?n)" by (simp add: initial_estimates_def)
  next
    fix h x v and s s' :: estimates
    assume t: "next_trial (fminbound ext (1 / 4) 10) h = Some x" and "?I s"
      and f: "onepl_mml_min_func ext ds ?su x s = (v, s')"
    then have "length (discrimination s) = ?n" "length (difficulty s) = ?n" by simp_all
    from onepl_mml_min_func_difficulty[OF this f] t show "?I s'" by blast
  qed
  moreover have "snd (onepl_mml ext ds None) =
      difficulty (snd (minimize (fminbound ext (1 / 4) 10) (onepl_mml_min_func ext ds ?su)
                  (initial_estimates ?n)))"
    by (simp add: onepl_mml_def Let_def n split: prod.splits)
  ultimately show ?thesis by simp
qed

lemma twopl_mml_min_func_local_difficulty:
  fixes s :: estimates
  assumes J: "length (discrimination s) = n \<and> length (difficulty s) = n \<and>
     (\<forall>i < n. (discrimination s ! i = 1 \<and> difficulty s ! i = 0) \<or>
        difficulty s ! i =
          mml_item_difficulty ext (discrimination s ! i) (scalar ds ! i) (theta su) (prior su))"
    and f: "twopl_mml_min_func_local ext ds su ndx x s = (v, s')"
  shows "length (discrimination s') = n \<and> length (difficulty s') = n \<and>
     (\<forall>i < n. (discrimination s' ! i = 1 \<and> difficulty s' ! i = 0) \<or>
        difficulty s' ! i =
          mml_item_difficulty ext (discrimination s' ! i) (scalar ds ! i) (theta su) (prior su))"
proof (intro conjI allI impI)
  have s': "s' = snd (twopl_mml_min_func_local ext ds su ndx x s)" using f by simp
  have d: "discrimination s' = (discrimination s)[ndx := x]"
    unfolding s' by (simp add: twopl_mml_min_func_local_def Let_def)
  have "\<exists>y. difficulty s' = (difficulty s)[ndx := y]"
    unfolding s' by (auto simp: twopl_mml_min_func_local_def Let_def)
  then obtain y where e: "difficulty s' = (difficulty s)[ndx := y]" ..
  show "length (discrimination s') = n" using J d by simp
  show "length (difficulty s') = n" using J by (subst e) simp
  fix i assume i: "i < n"
  show "(discrimination s' ! i = 1 \<and> difficulty s' ! i = 0) \<or>
        difficulty s' ! i =
          mml_item_difficulty ext (discrimination s' ! i) (scalar ds ! i) (theta su) (prior su)"
  proof (cases "i = ndx")
    case True
    have "difficulty s' ! ndx =
        mml_item_difficulty ext x (scalar ds ! ndx) (theta su) (prior su)"
      unfolding s' mml_item_difficulty_def
      by (rule twopl_mml_local_difficulty) (use J i True in simp_all)
    moreover have "discrimination s' ! ndx = x" using d J i True by simp
    ultimately show ?thesis using True by simp
  next
    case False
    have "discrimination s' ! i = discrimination s ! i" using d False by simp
    moreover have "difficulty s' ! i = difficulty s ! i"
      using False by (subst e) simp
    ultimately show ?thesis using J i by simp
  qed
qed

lemma twopl_mml_difficulties:
  assumes "twopl_mml ext ds m = Inr (disc, diff)"
  shows "length disc = n_items_of ds \<and> length diff = n_items_of ds \<and>
     (\<forall>i < n_items_of ds. (disc ! i = 1 \<and> diff ! i = 0) \<or>
        diff ! i = mml_item_difficulty ext (disc ! i) (scalar ds ! i)
                     (theta (mml_prepare ext ds)) (prior (mml_prepare ext ds)))"
proof -
  let ?su = "mml_prepare ext ds" and ?n = "n_items_of ds"
  let ?J = "\<lambda>s::estimates. length (discrimination s) = ?n \<and> length (difficulty s) = ?n \<and>
     (\<forall>i < ?n. (discrimination s ! i = 1 \<and> difficulty s ! i = 0) \<or>
        difficulty s ! i =
          mml_item_difficulty ext (discrimination s ! i) (scalar ds ! i) (theta ?su) (prior ?su))"
  have n: "n_items ?su = ?n" by (simp add: mml_prepare_def Let_def)
  obtain s where it: "iterate_passes (nat m) (twopl_mml_pass ext ds ?su) discrimination_settled
        (initial_estimates (n_items ?su)) = Inr s"
    and res: "disc = discrimination s" "diff = difficulty s"
    using assms by (auto simp: twopl_mml_def Let_def split: sum.splits)
  have solve: "?J (twopl_mml_solve ext ds ?su k t)" if "?J t" for k and t :: estimates
    unfolding twopl_mml_solve_def
  proof (rule minimize_invariant[where I = ?J])
    show "?J t" by (rule that)
  next
    fix h x v and u u' :: estimates
    assume "?J u" and "twopl_mml_min_func_local ext ds ?su k x u = (v, u')"
    then show "?J u'" by (rule twopl_mml_min_func_local_difficulty)
  qed
  have item: "?J (twopl_mml_item ext ds ?su k t)" if "?J t" for k and t :: estimates
  proof -
    have "?J (remove_item ?su k t)" using that by simp
    then have "?J (twopl_mml_solve ext ds ?su k (remove_item ?su k t))" by (rule solve)
    then show ?thesis by (simp add: twopl_mml_item_def)
  qed
  have pass: "?J (twopl_mml_pass ext ds ?su t)" if "?J t" for t :: estimates
    unfolding twopl_mml_pass_def
  proof (rule fold_invariant[where I = ?J])
    show "?J (full_rebuild ?su t)" using that by (simp add: full_rebuild_def)
  next
    fix k and u :: estimates assume "?J u"
    then show "?J (twopl_mml_item ext ds ?su k u)" by (rule item)
  qed
  have "?J s"
  proof (rule iterate_passes_invariant[where I = ?J, OF _ _ it])
    fix t :: estimates assume "?J t" then show "?J (twopl_mml_pass ext ds ?su t)" by (rule pass)
  next
    show "?J (initial_estimates (n_items ?su))" by (simp add: n initial_estimates_def)
  qed
  then show ?thesis using res by simp
qed

lemma matching_finds_roots: "finds_roots matching_external"
  by (auto simp: finds_roots_def matching_external_def split: if_splits)

lemma example_scalar: "scalar example_dataset = [1 / 2]"
  by (simp add: scalar_def get_true_false_counts_def example_dataset_def)

lemma matching_separate_integral: "separate_integral matching_external 1 0 = 1 / 2"
  by (simp add: separate_integral_def fixed_quad_fun_def quadrature_function_def
      matching_external_def example_external_def sum_list_replicate)

lemma matching_rasch_separate:
  "rasch_separate matching_external example_dataset (Scalar 1) = Inr [0]"
proof -
  have b: "brentq matching_external (separate_min_zero_local matching_external (1 / 2) 1) (- 6) 6
      = Inr 0"
    using matching_separate_integral
    by (simp add: matching_external_def separate_min_zero_local_def)
  have n: "n_items_of example_dataset = 1" by (simp add: n_items_of_def example_dataset_def)
  show ?thesis
    by (simp add: rasch_separate_def n example_scalar as_array_def b)
qed

lemma matching_mml_integral:
  "mml_integral matching_external 1 (replicate 61 0) (replicate 61 (standard_normal_pdf 0)) 0
     = 1 / 2"
  by (simp add: mml_integral_def fixed_quad_row_def matching_external_def
      standard_normal_pdf_def sum_list_replicate)

lemma matching_mml_item_difficulty:
  "mml_item_difficulty matching_external a sc th dens = 0"
  by (simp add: mml_item_difficulty_def matching_external_def example_external_def
      minimize_pure_single_trial)

text \<open>
  C7, as the code has it. The observed proportion of an item is its count of endorsements
  divided by the number of participants. \<^verbatim>\<open>rasch_separate\<close> takes the difficulty of
  each item from the root finder \<^verbatim>\<open>brentq\<close> on [-6, 6], applied to the observed
  proportion minus the model-implied probability (the rule of order 101 on [-10, 10]
  applied to the response function times the standard normal density): with a root finder
  that returns zeros of its function inside the bracket, every difficulty returned lies in
  [-6, 6] and is a value where the model-implied probability equals the observed
  proportion. A discrimination array shorter than the number of items makes it raise.
  The \<^verbatim>\<open>_mml_abstract\<close> step of \<^verbatim>\<open>onepl_mml\<close> and \<^verbatim>\<open>twopl_mml\<close> takes
  the difficulty from the bounded minimiser \<^verbatim>\<open>fminbound\<close> on [-6, 6], applied to the
  square of the model-implied probability (the rule of order 61 on [-5, 5]) minus the
  observed proportion: \<^verbatim>\<open>onepl_mml\<close> with a given discrimination returns it for that
  discrimination, \<^verbatim>\<open>onepl_mml\<close> searching the discrimination returns it for a
  discrimination its search has tried (or the initial zeros), and \<^verbatim>\<open>twopl_mml\<close>
  returns for each item the initial pair (1, 0) or a discrimination with the difficulty of
  the step for it. Where the value the minimiser returns is a minimum of the square over
  [-6, 6], and some difficulty of [-6, 6] matches, the model-implied probability at the
  value returned equals the observed proportion. Neither function handed to a solver
  involves the response patterns or the partial integral.
\<close>

theorem separable_difficulty_solvers:
  "(i < n_items_of ds \<and> rows ds ! i \<noteq> [] \<longrightarrow>
      scalar ds ! i = real (length (filter id (rows ds ! i))) / real (length (rows ds ! i))) \<and>
   (rasch_separate ext ds d = Inr ps \<longrightarrow>
      length ps = n_items_of ds \<and>
      (\<forall>i < n_items_of ds.
         brentq ext (separate_min_zero_local ext (scalar ds ! i)
                       (as_array (n_items_of ds) d ! i)) (- 6) 6 = Inr (ps ! i))) \<and>
   (finds_roots ext \<and> rasch_separate ext ds d = Inr ps \<longrightarrow>
      (\<forall>i < n_items_of ds.
         - 6 \<le> ps ! i \<and> ps ! i \<le> 6 \<and>
         separate_integral ext (as_array (n_items_of ds) d ! i) (ps ! i) = scalar ds ! i)) \<and>
   (length xs < n_items_of ds \<longrightarrow> (\<exists>e. rasch_separate ext ds (Array xs) = Inl e)) \<and>
   (0 < n_items_of ds \<longrightarrow> rasch_separate ext ds (Array []) = Inl IndexError) \<and>
   (length (leggauss_weights ext 101) = 101 \<and> length (leggauss_nodes ext 101) = 101 \<longrightarrow>
      separate_integral ext a b =
        10 * (\<Sum>k < 101. leggauss_weights ext 101 ! k *
                (irt_evaluation ext b a (10 * leggauss_nodes ext 101 ! k) *
                 (1 / sqrt (2 * pi) * exp (- ((10 * leggauss_nodes ext 101 ! k)\<^sup>2) / 2))))) \<and>
   mml_item_difficulty ext a sc th dens =
     minimize_pure (fminbound ext (- 6) 6) (\<lambda>e. (mml_integral ext a th dens e - sc)\<^sup>2) \<and>
   (length (leggauss_weights ext 61) = 61 \<and> length th = 61 \<and> length dens = 61 \<longrightarrow>
      mml_integral ext a th dens b =
        5 * (\<Sum>k < 61. leggauss_weights ext 61 ! k *
               (endorsement_probability a b (th ! k) * dens ! k))) \<and>
   (minimises_on (\<lambda>e. (mml_integral ext a th dens e - sc)\<^sup>2) (- 6) 6 r \<and>
    - 6 \<le> b \<and> b \<le> 6 \<and> mml_integral ext a th dens b = sc \<longrightarrow>
      mml_integral ext a th dens r = sc) \<and>
   (\<forall>i < n_items_of ds.
      snd (onepl_mml ext ds (Some a)) ! i =
        mml_item_difficulty ext a (scalar ds ! i) (theta (mml_prepare ext ds))
          (prior (mml_prepare ext ds))) \<and>
   length (snd (onepl_mml ext ds None)) = n_items_of ds \<and>
   (snd (onepl_mml ext ds None) = replicate (n_items_of ds) 0 \<or>
    (\<exists>a' h. next_trial (fminbound ext (1 / 4) 10) h = Some a' \<and>
       (\<forall>i < n_items_of ds.
          snd (onepl_mml ext ds None) ! i =
            mml_item_difficulty ext a' (scalar ds ! i) (theta (mml_prepare ext ds))
              (prior (mml_prepare ext ds))))) \<and>
   (0 < n_items_of ds \<longrightarrow>
      (\<exists>disc diff. twopl_mml ext ds m = Inr (disc, diff) \<and>
         length disc = n_items_of ds \<and> length diff = n_items_of ds \<and>
         (\<forall>i < n_items_of ds. (disc ! i = 1 \<and> diff ! i = 0) \<or>
            diff ! i = mml_item_difficulty ext (disc ! i) (scalar ds ! i)
                         (theta (mml_prepare ext ds)) (prior (mml_prepare ext ds)))))"
proof -
  have sq: "mml_min_zero_local ext a sc th dens = (\<lambda>e. (mml_integral ext a th dens e - sc)\<^sup>2)"
    by (simp add: mml_min_zero_local_def fun_eq_iff)
  have c1: "i < n_items_of ds \<and> rows ds ! i \<noteq> [] \<longrightarrow>
      scalar ds ! i = real (length (filter id (rows ds ! i))) / real (length (rows ds ! i))"
    using scalar_nth by blast
  have c2: "rasch_separate ext ds d = Inr ps \<longrightarrow>
      length ps = n_items_of ds \<and>
      (\<forall>i < n_items_of ds.
         brentq ext (separate_min_zero_local ext (scalar ds ! i)
                       (as_array (n_items_of ds) d ! i)) (- 6) 6 = Inr (ps ! i))"
  proof (intro impI conjI allI)
    assume r: "rasch_separate ext ds d = Inr ps"
    show "length ps = n_items_of ds" using r by (rule length_rasch_separate)
    fix i assume i: "i < n_items_of ds"
    show "brentq ext (separate_min_zero_local ext (scalar ds ! i)
           (as_array (n_items_of ds) d ! i)) (- 6) 6 = Inr (ps ! i)"
      by (rule rasch_separate_loop_roots[OF r[unfolded rasch_separate_def]]) (use i in simp_all)
  qed
  have c3: "finds_roots ext \<and> rasch_separate ext ds d = Inr ps \<longrightarrow>
      (\<forall>i < n_items_of ds.
         - 6 \<le> ps ! i \<and> ps ! i \<le> 6 \<and>
         separate_integral ext (as_array (n_items_of ds) d ! i) (ps ! i) = scalar ds ! i)"
    using rasch_separate_matches[of ext ds d ps] by blast
  have c4: "length xs < n_items_of ds \<longrightarrow> (\<exists>e. rasch_separate ext ds (Array xs) = Inl e)"
    using rasch_separate_short by blast
  have c5: "0 < n_items_of ds \<longrightarrow> rasch_separate ext ds (Array []) = Inl IndexError"
    using rasch_separate_empty by blast
  have c6: "length (leggauss_weights ext 101) = 101 \<and> length (leggauss_nodes ext 101) = 101 \<longrightarrow>
      separate_integral ext a b =
        10 * (\<Sum>k < 101. leggauss_weights ext 101 ! k *
                (irt_evaluation ext b a (10 * leggauss_nodes ext 101 ! k) *
                 (1 / sqrt (2 * pi) * exp (- ((10 * leggauss_nodes ext 101 ! k)\<^sup>2) / 2))))"
    using separate_integral_formula[of ext a b] by blast
  have c7: "mml_item_difficulty ext a sc th dens =
     minimize_pure (fminbound ext (- 6) 6) (\<lambda>e. (mml_integral ext a th dens e - sc)\<^sup>2)"
    by (simp add: mml_item_difficulty_def sq)
  have c8: "length (leggauss_weights ext 61) = 61 \<and> length th = 61 \<and> length dens = 61 \<longrightarrow>
      mml_integral ext a th dens b =
        5 * (\<Sum>k < 61. leggauss_weights ext 61 ! k *
               (endorsement_probability a b (th ! k) * dens ! k))"
    using mml_integral_formula[of ext th dens a b] by blast
  have c9: "minimises_on (\<lambda>e. (mml_integral ext a th dens e - sc)\<^sup>2) (- 6) 6 r \<and>
    - 6 \<le> b \<and> b \<le> 6 \<and> mml_integral ext a th dens b = sc \<longrightarrow>
      mml_integral ext a th dens r = sc"
    using minimum_of_square_matches[of ext a sc th dens r b] unfolding sq by blast
  have c10: "\<forall>i < n_items_of ds.
      snd (onepl_mml ext ds (Some a)) ! i =
        mml_item_difficulty ext a (scalar ds ! i) (theta (mml_prepare ext ds))
          (prior (mml_prepare ext ds))"
    using onepl_mml_fixed_difficulty by blast
  have c12: "0 < n_items_of ds \<longrightarrow>
      (\<exists>disc diff. twopl_mml ext ds m = Inr (disc, diff) \<and>
         length disc = n_items_of ds \<and> length diff = n_items_of ds \<and>
         (\<forall>i < n_items_of ds. (disc ! i = 1 \<and> diff ! i = 0) \<or>
            diff ! i = mml_item_difficulty ext (disc ! i) (scalar ds ! i)
                         (theta (mml_prepare ext ds)) (prior (mml_prepare ext ds))))"
  proof
    assume "0 < n_items_of ds"
    from twopl_mml_loop[OF this, of ext m]
    obtain disc diff where r: "twopl_mml ext ds m = Inr (disc, diff)"
      unfolding Let_def by blast
    from twopl_mml_difficulties[OF r] r
    show "\<exists>disc diff. twopl_mml ext ds m = Inr (disc, diff) \<and>
         length disc = n_items_of ds \<and> length diff = n_items_of ds \<and>
         (\<forall>i < n_items_of ds. (disc ! i = 1 \<and> diff ! i = 0) \<or>
            diff ! i = mml_item_difficulty ext (disc ! i) (scalar ds ! i)
                         (theta (mml_prepare ext ds)) (prior (mml_prepare ext ds)))"
      by blast
  qed
  show ?thesis
    using c1 c2 c3 c4 c5 c6 c7 c8 c9 c10 onepl_mml_search_difficulty[of ext ds] c12
    by (intro conjI) (assumption | simp)+
qed

text \<open>
  The matching configuration on the example dataset, whose only item is endorsed by one
  participant of two: every hypothesis holds, the root finder and the minimiser return
  the difficulty 0, and there the model-implied probability is 1/2.
\<close>

theorem separable_difficulty_solvers_witness:
  "(0 :: nat) < n_items_of example_dataset \<and> rows example_dataset ! 0 \<noteq> [] \<and>
   scalar example_dataset ! 0 = 1 / 2 \<and>
   finds_roots matching_external \<and>
   rasch_separate matching_external example_dataset (Scalar 1) = Inr [0] \<and>
   - 6 \<le> [0 :: real] ! 0 \<and> [0 :: real] ! 0 \<le> 6 \<and>
   separate_integral matching_external (as_array (n_items_of example_dataset) (Scalar 1) ! 0)
     ([0] ! 0) = scalar example_dataset ! 0 \<and>
   length ([] :: real list) < n_items_of example_dataset \<and>
   rasch_separate matching_external example_dataset (Array []) = Inl IndexError \<and>
   length (leggauss_weights matching_external 101) = 101 \<and>
   length (leggauss_nodes matching_external 101) = 101 \<and>
   length (leggauss_weights matching_external 61) = 61 \<and>
   length (replicate 61 (0 :: real)) = 61 \<and>
   length (replicate 61 (standard_normal_pdf 0)) = 61 \<and>
   minimises_on
     (\<lambda>e. (mml_integral matching_external 1 (replicate 61 0)
              (replicate 61 (standard_normal_pdf 0)) e - 1 / 2)\<^sup>2) (- 6) 6 0 \<and>
   mml_integral matching_external 1 (replicate 61 0) (replicate 61 (standard_normal_pdf 0)) 0
     = 1 / 2 \<and>
   mml_item_difficulty matching_external 1 (1 / 2) (replicate 61 0)
     (replicate 61 (standard_normal_pdf 0)) = 0 \<and>
   snd (onepl_mml matching_external example_dataset (Some 1)) ! 0 =
     mml_item_difficulty matching_external 1 (scalar example_dataset ! 0)
       (theta (mml_prepare matching_external example_dataset))
       (prior (mml_prepare matching_external example_dataset)) \<and>
   (\<exists>disc diff. twopl_mml matching_external example_dataset 2 = Inr (disc, diff) \<and>
      length disc = n_items_of example_dataset)"
proof -
  have n: "(0 :: nat) < n_items_of example_dataset"
    by (simp add: n_items_of_def example_dataset_def)
  have r0: "rows example_dataset ! 0 \<noteq> []" by (simp add: example_dataset_def)
  have sc: "scalar example_dataset ! 0 = 1 / 2" by (simp add: example_scalar)
  have e: "length ([] :: real list) < n_items_of example_dataset" using n by simp
  have l101: "length (leggauss_weights matching_external 101) = 101 \<and>
      length (leggauss_nodes matching_external 101) = 101"
    by (simp add: matching_external_def example_external_def)
  have l61: "length (leggauss_weights matching_external 61) = 61 \<and>
      length (replicate 61 (0 :: real)) = 61 \<and>
      length (replicate 61 (standard_normal_pdf 0)) = 61"
    by (simp add: matching_external_def)
  have m: "minimises_on
     (\<lambda>e. (mml_integral matching_external 1 (replicate 61 0)
              (replicate 61 (standard_normal_pdf 0)) e - 1 / 2)\<^sup>2) (- 6) 6 0"
    by (simp add: minimises_on_def matching_mml_integral)
  note T = separable_difficulty_solvers[where ext = matching_external and ds = example_dataset
      and i = 0 and d = "Scalar 1" and ps = "[0]" and xs = "[]" and a = 1 and b = 0
      and sc = "1 / 2" and th = "replicate 61 0" and dens = "replicate 61 (standard_normal_pdf 0)"
      and r = 0 and m = 2]
  have t3: "- 6 \<le> [0 :: real] ! 0 \<and> [0 :: real] ! 0 \<le> 6 \<and>
      separate_integral matching_external (as_array (n_items_of example_dataset) (Scalar 1) ! 0)
        ([0] ! 0) = scalar example_dataset ! 0"
    using T matching_finds_roots matching_rasch_separate n by blast
  have t5: "rasch_separate matching_external example_dataset (Array []) = Inl IndexError"
    using T n by blast
  have t9: "mml_integral matching_external 1 (replicate 61 0)
      (replicate 61 (standard_normal_pdf 0)) 0 = 1 / 2"
    using T m matching_mml_integral by simp
  have t10: "snd (onepl_mml matching_external example_dataset (Some 1)) ! 0 =
     mml_item_difficulty matching_external 1 (scalar example_dataset ! 0)
       (theta (mml_prepare matching_external example_dataset))
       (prior (mml_prepare matching_external example_dataset))"
    using T n by blast
  have t12: "\<exists>disc diff. twopl_mml matching_external example_dataset 2 = Inr (disc, diff) \<and>
      length disc = n_items_of example_dataset"
    using T n by blast
  show ?thesis
    using n r0 sc matching_finds_roots matching_rasch_separate t3 e t5 l101 l61 m t9
      matching_mml_item_difficulty[of 1 "1 / 2" "replicate 61 0"
        "replicate 61 (standard_normal_pdf 0)"] t10 t12
    by (intro conjI) (assumption | simp)+
qed

end
